theory Spec2Isabelle
  imports Complex_Main
begin

section \<open>Cells of a data frame\<close>

text \<open>
  A cell of a frame column is a float. Rounding is not modelled: a finite float is an
  exact real, and the three non-numeric floats (not-a-number and the two infinities)
  are values of their own. Signed zeros are not distinguished.
\<close>

datatype fval = Fin real | PInf | NInf | NaN

fun fneg :: "fval \<Rightarrow> fval" where
  "fneg (Fin a) = Fin (- a)"
| "fneg PInf = NInf"
| "fneg NInf = PInf"
| "fneg NaN = NaN"

fun fadd :: "fval \<Rightarrow> fval \<Rightarrow> fval" where
  "fadd NaN b = NaN"
| "fadd a NaN = NaN"
| "fadd (Fin a) (Fin b) = Fin (a + b)"
| "fadd PInf NInf = NaN"
| "fadd NInf PInf = NaN"
| "fadd PInf b = PInf"
| "fadd a PInf = PInf"
| "fadd NInf b = NInf"
| "fadd a NInf = NInf"

definition fsub :: "fval \<Rightarrow> fval \<Rightarrow> fval" where
  "fsub a b = fadd a (fneg b)"

fun fmul :: "fval \<Rightarrow> fval \<Rightarrow> fval" where
  "fmul NaN b = NaN"
| "fmul a NaN = NaN"
| "fmul (Fin a) (Fin b) = Fin (a * b)"
| "fmul (Fin a) b = (if a = 0 then NaN else if 0 < a then b else fneg b)"
| "fmul a (Fin b) = (if b = 0 then NaN else if 0 < b then a else fneg a)"
| "fmul PInf b = b"
| "fmul NInf b = fneg b"

text \<open>
  Float division does not raise: a finite value over zero is an infinity (by the sign of
  the numerator), zero over zero and infinity over infinity are not-a-number.
\<close>

fun fdiv :: "fval \<Rightarrow> fval \<Rightarrow> fval" where
  "fdiv NaN b = NaN"
| "fdiv a NaN = NaN"
| "fdiv (Fin a) (Fin b) =
     (if b \<noteq> 0 then Fin (a / b) else if a = 0 then NaN else if 0 < a then PInf else NInf)"
| "fdiv (Fin a) b = Fin 0"
| "fdiv a (Fin b) = (if 0 \<le> b then a else fneg a)"
| "fdiv a b = NaN"

fun fabs :: "fval \<Rightarrow> fval" where
  "fabs (Fin a) = Fin \<bar>a\<bar>"
| "fabs PInf = PInf"
| "fabs NInf = PInf"
| "fabs NaN = NaN"

fun fsqrt :: "fval \<Rightarrow> fval" where
  "fsqrt (Fin a) = (if a < 0 then NaN else Fin (sqrt a))"
| "fsqrt PInf = PInf"
| "fsqrt NInf = NaN"
| "fsqrt NaN = NaN"

text \<open>The larger of two cells, skipping not-a-number (pandas' \<open>skipna\<close>).\<close>

fun fmax :: "fval \<Rightarrow> fval \<Rightarrow> fval" where
  "fmax NaN b = b"
| "fmax a NaN = a"
| "fmax PInf b = PInf"
| "fmax a PInf = PInf"
| "fmax NInf b = b"
| "fmax a NInf = a"
| "fmax (Fin a) (Fin b) = Fin (max a b)"

section \<open>Series operations\<close>

datatype error = KeyError string | ValueError | TypeError | OutOfBoundsDatetime

text \<open>Sequencing: a raised error ends the computation.\<close>

definition bind_err :: "'e + 'a \<Rightarrow> ('a \<Rightarrow> 'e + 'b) \<Rightarrow> 'e + 'b" where
  "bind_err m f = (case m of Inl e \<Rightarrow> Inl e | Inr x \<Rightarrow> f x)"

text \<open>
  An expression that may raise, evaluated while the mutable state is \<open>st\<close>: the raised
  error leaves with the state as it is at that moment.
\<close>

definition raise_at :: "'s \<Rightarrow> error + 'a \<Rightarrow> ('a \<Rightarrow> (error \<times> 's) + 'b) \<Rightarrow> (error \<times> 's) + 'b" where
  "raise_at st m f = (case m of Inl e \<Rightarrow> Inl (e, st) | Inr x \<Rightarrow> f x)"

text \<open>The state a call leaves behind, whether it returned or raised.\<close>

definition state_after :: "(error \<times> 's) + 's \<Rightarrow> 's" where
  "state_after r = (case r of Inl (e, st) \<Rightarrow> st | Inr st \<Rightarrow> st)"

text \<open>Elementwise operations on two series over the same index.\<close>

definition series_sub :: "fval list \<Rightarrow> fval list \<Rightarrow> fval list" where
  "series_sub xs ys = map2 fsub xs ys"

definition series_add :: "fval list \<Rightarrow> fval list \<Rightarrow> fval list" where
  "series_add xs ys = map2 fadd xs ys"

definition series_div :: "fval list \<Rightarrow> fval list \<Rightarrow> fval list" where
  "series_div xs ys = map2 fdiv xs ys"

definition series_scale :: "real \<Rightarrow> fval list \<Rightarrow> fval list" where
  "series_scale k xs = map (fmul (Fin k)) xs"

definition series_abs :: "fval list \<Rightarrow> fval list" where
  "series_abs xs = map fabs xs"

text \<open>\<^verbatim>\<open>s.shift(1)\<close>: every value one row later, the first row not-a-number.\<close>

definition shift1 :: "fval list \<Rightarrow> fval list" where
  "shift1 xs = (if xs = [] then [] else NaN # butlast xs)"

text \<open>
  The window operations of pandas (\<open>rolling\<close>, \<open>ewm\<close>) first turn every infinite value
  of the series into not-a-number.
\<close>

fun finite_or_nan :: "fval \<Rightarrow> fval" where
  "finite_or_nan (Fin a) = Fin a"
| "finite_or_nan PInf = NaN"
| "finite_or_nan NInf = NaN"
| "finite_or_nan NaN = NaN"

definition prep_values :: "fval list \<Rightarrow> fval list" where
  "prep_values xs = map finite_or_nan xs"

text \<open>
  \<^verbatim>\<open>s.rolling(n)\<close> with an aggregate: at row \<open>t\<close> the window is the last \<open>n\<close>
  values up to \<open>t\<close>; with the default \<open>min_periods = n\<close> the result is not-a-number
  unless the window is full and holds no not-a-number.
\<close>

definition rolling :: "nat \<Rightarrow> (fval list \<Rightarrow> fval) \<Rightarrow> fval list \<Rightarrow> fval list" where
  "rolling n agg xs =
     map (\<lambda>t. let w = take n (drop (t + 1 - n) (prep_values xs))
              in if t + 1 < n \<or> NaN \<in> set w then NaN else agg w)
         [0..<length xs]"

definition fsum :: "fval list \<Rightarrow> fval" where
  "fsum w = foldl fadd (Fin 0) w"

definition fmean :: "fval list \<Rightarrow> fval" where
  "fmean w = fdiv (fsum w) (Fin (real (length w)))"

text \<open>The sample standard deviation (pandas' default \<open>ddof = 1\<close>).\<close>

definition fstd :: "fval list \<Rightarrow> fval" where
  "fstd w =
     (if length w \<le> 1 then NaN
      else fsqrt (fdiv (fsum (map (\<lambda>x. fmul (fsub x (fmean w)) (fsub x (fmean w))) w))
                       (Fin (real (length w - 1)))))"

text \<open>
  \<^verbatim>\<open>s.ewm(span, min_periods).mean()\<close> with pandas' defaults (\<open>adjust=True\<close>,
  \<open>ignore_na=False\<close>): the running weighted average \<open>weighted\<close>, the weight
  \<open>old_wt\<close> of the past and the number \<open>nobs\<close> of observations so far.
\<close>

fun ewm_loop :: "real \<Rightarrow> nat \<Rightarrow> fval \<Rightarrow> real \<Rightarrow> nat \<Rightarrow> fval list \<Rightarrow> fval list" where
  "ewm_loop alpha minp weighted old_wt nobs [] = []"
| "ewm_loop alpha minp weighted old_wt nobs (cur # vals) =
     (let nobs' = (if cur \<noteq> NaN then nobs + 1 else nobs);
          old_wt' = (if weighted \<noteq> NaN then old_wt * (1 - alpha) else old_wt);
          weighted' =
            (if weighted \<noteq> NaN \<and> cur \<noteq> NaN
               then fdiv (fadd (fmul (Fin old_wt') weighted) cur) (Fin (old_wt' + 1))
             else if weighted \<noteq> NaN then weighted
             else cur);
          old_wt'' = (if weighted \<noteq> NaN \<and> cur \<noteq> NaN then old_wt' + 1 else old_wt')
      in (if minp \<le> nobs' then weighted' else NaN)
         # ewm_loop alpha minp weighted' old_wt'' nobs' vals)"

definition ewm_mean :: "nat \<Rightarrow> nat \<Rightarrow> fval list \<Rightarrow> error + fval list" where
  "ewm_mean span' min_periods xs =
     (if span' < 1 then Inl ValueError
      else Inr (ewm_loop (2 / (real span' + 1)) (max min_periods 1) NaN 1 0 (prep_values xs)))"

section \<open>Data frames\<close>

text \<open>
  A pandas DataFrame as the buffer uses it: the index (the bars' timestamps, in
  nanoseconds) and the columns in their order, each column as long as the index.
\<close>

record frame =
  index :: "int list"
  columns :: "(string \<times> fval list) list"

text \<open>\<^verbatim>\<open>pd.DataFrame()\<close>: no rows and no columns.\<close>

definition DataFrame :: frame where
  "DataFrame = \<lparr>index = [], columns = []\<rparr>"

text \<open>\<^verbatim>\<open>df.empty\<close>: true when either axis has length zero.\<close>

definition df_empty :: "frame \<Rightarrow> bool" where
  "df_empty d = (index d = [] \<or> columns d = [])"

text \<open>\<^verbatim>\<open>len(df)\<close>: the number of rows.\<close>

definition len :: "frame \<Rightarrow> nat" where
  "len d = length (index d)"

text \<open>\<^verbatim>\<open>df.iloc[k:]\<close> for \<open>k \<ge> 0\<close>: the rows from position \<open>k\<close> on.\<close>

definition iloc_from :: "nat \<Rightarrow> frame \<Rightarrow> frame" where
  "iloc_from k d =
     \<lparr>index = drop k (index d), columns = map (\<lambda>(c, vs). (c, drop k vs)) (columns d)\<rparr>"

text \<open>
  \<^verbatim>\<open>df.append(other)\<close>: the rows of \<open>other\<close> after those of \<open>df\<close>. The columns
  are those of \<open>df\<close> followed by the columns only \<open>other\<close> has; a cell of a column that
  one side lacks is not-a-number.
\<close>

definition col_or_nan :: "frame \<Rightarrow> string \<Rightarrow> fval list" where
  "col_or_nan d c =
     (case map_of (columns d) c of Some vs \<Rightarrow> vs | None \<Rightarrow> replicate (len d) NaN)"

definition append_names :: "frame \<Rightarrow> frame \<Rightarrow> string list" where
  "append_names d other =
     map fst (columns d) @
     filter (\<lambda>c. c \<notin> set (map fst (columns d))) (map fst (columns other))"

definition df_append :: "frame \<Rightarrow> frame \<Rightarrow> frame" where
  "df_append d other =
     \<lparr>index = index d @ index other,
      columns = map (\<lambda>c. (c, col_or_nan d c @ col_or_nan other c)) (append_names d other)\<rparr>"

text \<open>
  Assignment to a key of an insertion-ordered Python dict, and to a column of a frame:
  an existing key keeps its position, a new key goes to the end.
\<close>

fun dict_set :: "'k \<Rightarrow> 'v \<Rightarrow> ('k \<times> 'v) list \<Rightarrow> ('k \<times> 'v) list" where
  "dict_set k v [] = [(k, v)]"
| "dict_set k v ((k', v') # kvs) =
     (if k = k' then (k, v) # kvs else (k', v') # dict_set k v kvs)"

text \<open>\<^verbatim>\<open>df[c]\<close>: the column, or a KeyError.\<close>

definition get_col :: "frame \<Rightarrow> string \<Rightarrow> error + fval list" where
  "get_col d c = (case map_of (columns d) c of None \<Rightarrow> Inl (KeyError c) | Some vs \<Rightarrow> Inr vs)"

text \<open>\<^verbatim>\<open>df[c] = vs\<close>, for a series \<open>vs\<close> over the frame's own index.\<close>

definition set_col :: "string \<Rightarrow> fval list \<Rightarrow> frame \<Rightarrow> frame" where
  "set_col c vs d = d\<lparr>columns := dict_set c vs (columns d)\<rparr>"

text \<open>
  \<^verbatim>\<open>df.drop(cs, axis=1, inplace=True)\<close>: a KeyError when a label of \<open>cs\<close> is not a
  column.
\<close>

definition drop_cols :: "string list \<Rightarrow> frame \<Rightarrow> error + frame" where
  "drop_cols cs d =
     (case filter (\<lambda>c. c \<notin> set (map fst (columns d))) cs of
        [] \<Rightarrow> Inr (d\<lparr>columns := filter (\<lambda>(c, vs). c \<notin> set cs) (columns d)\<rparr>)
      | c # _ \<Rightarrow> Inl (KeyError c))"

text \<open>
  \<^verbatim>\<open>df[[a, b, c]].max(axis = 1)\<close>: the row-wise maximum of three columns, skipping
  not-a-number.
\<close>

definition row_max3 :: "fval list \<Rightarrow> fval list \<Rightarrow> fval list \<Rightarrow> fval list" where
  "row_max3 xs ys zs = map (\<lambda>(x, y, z). fmax (fmax x y) z) (zip xs (zip ys zs))"

section \<open>FrameClient\<close>

text \<open>
  The arguments an indicator method was called with, besides \<open>self\<close> and \<open>name\<close>. The
  registry \<open>indicators\<close> is a Python dict keyed by \<open>name\<close>: an association list in
  insertion order. The saved \<open>args['name']\<close> is always the key itself, so an entry
  stores the name once; the constructor stands for the saved \<open>func\<close>. Spans and
  periods are natural numbers (pandas refuses a negative window), the number of
  standard deviations is a real.
\<close>

datatype indicator_args =
    Macd_args nat nat nat
  | Atr_args nat
  | Bbands_args nat real

record frame_client =
  df :: frame
  max_size :: int
  indicators :: "(string \<times> indicator_args) list"

definition FrameClient :: "int \<Rightarrow> frame_client" where
  "FrameClient ms = \<lparr>df = DataFrame, max_size = ms, indicators = []\<rparr>"

subsection \<open>Indicators\<close>

text \<open>
  \<^verbatim>\<open>_save_indicator(name, func, args)\<close>: stores the spec under \<open>name\<close> and answers
  whether the frame is non-empty.
\<close>

definition save_indicator :: "string \<Rightarrow> indicator_args \<Rightarrow> frame_client \<Rightarrow> frame_client \<times> bool" where
  "save_indicator name args fc =
     (fc\<lparr>indicators := dict_set name args (indicators fc)\<rparr>, \<not> df_empty (df fc))"

text \<open>
  The body of \<open>macd\<close> after the guard. It assigns the columns of \<open>self.df\<close> in place, so
  an error raised on the way leaves with the frame as far as it was assigned.
\<close>

definition macd_body :: "nat \<Rightarrow> nat \<Rightarrow> nat \<Rightarrow> frame \<Rightarrow> (error \<times> frame) + frame" where
  "macd_body fast slow macd_period d =
     raise_at d (get_col d ''close'') (\<lambda>c1.
     raise_at d (ewm_mean fast fast c1) (\<lambda>macd_fast.
     let d1 = set_col ''macd_fast'' macd_fast d in
     raise_at d1 (get_col d1 ''close'') (\<lambda>c2.
     raise_at d1 (ewm_mean slow slow c2) (\<lambda>macd_slow.
     let d2 = set_col ''macd_slow'' macd_slow d1 in
     raise_at d2 (get_col d2 ''macd_fast'') (\<lambda>a.
     raise_at d2 (get_col d2 ''macd_slow'') (\<lambda>b.
     let d3 = set_col ''macd_diff'' (series_sub a b) d2 in
     raise_at d3 (get_col d3 ''macd_diff'') (\<lambda>diff.
     raise_at d3 (ewm_mean macd_period macd_period diff) (\<lambda>m.
     let d4 = set_col ''macd'' m d3 in
     raise_at d4 (drop_cols [''macd_fast'', ''macd_slow'', ''macd_diff''] d4) Inr))))))))"

text \<open>
  The frame the body worked on is \<open>self.df\<close> itself: the client afterwards, returned or
  raised.
\<close>

definition in_client ::
  "frame_client \<Rightarrow> (error \<times> frame) + frame \<Rightarrow> (error \<times> frame_client) + frame_client" where
  "in_client fc r =
     (case r of Inl (e, d) \<Rightarrow> Inl (e, fc\<lparr>df := d\<rparr>) | Inr d \<Rightarrow> Inr (fc\<lparr>df := d\<rparr>))"

definition macd ::
  "nat \<Rightarrow> nat \<Rightarrow> nat \<Rightarrow> string \<Rightarrow> frame_client \<Rightarrow> (error \<times> frame_client) + frame_client" where
  "macd fast slow macd_period name fc =
     (case save_indicator name (Macd_args fast slow macd_period) fc of
        (fc1, nonempty) \<Rightarrow>
          if \<not> nonempty then Inr fc1
          else in_client fc1 (macd_body fast slow macd_period (df fc1)))"

definition atr_body :: "nat \<Rightarrow> frame \<Rightarrow> (error \<times> frame) + frame" where
  "atr_body period d =
     raise_at d (get_col d ''high'') (\<lambda>h1.
     raise_at d (get_col d ''low'') (\<lambda>l1.
     let d1 = set_col ''tr_hl'' (series_abs (series_sub h1 l1)) d in
     raise_at d1 (get_col d1 ''high'') (\<lambda>h2.
     raise_at d1 (get_col d1 ''close'') (\<lambda>c2.
     let d2 = set_col ''tr_hp'' (series_abs (series_sub h2 (shift1 c2))) d1 in
     raise_at d2 (get_col d2 ''low'') (\<lambda>l3.
     raise_at d2 (get_col d2 ''close'') (\<lambda>c3.
     let d3 = set_col ''tr_lp'' (series_abs (series_sub l3 (shift1 c3))) d2 in
     raise_at d3 (get_col d3 ''tr_hl'') (\<lambda>x.
     raise_at d3 (get_col d3 ''tr_hp'') (\<lambda>y.
     raise_at d3 (get_col d3 ''tr_lp'') (\<lambda>z.
     let d4 = set_col ''tr'' (row_max3 x y z) d3 in
     raise_at d4 (get_col d4 ''tr'') (\<lambda>tr.
     let d5 = set_col ''atr'' (rolling period fmean tr) d4 in
     raise_at d5 (drop_cols [''tr_hl'', ''tr_hp'', ''tr_lp'', ''tr''] d5) Inr))))))))))"

definition atr :: "nat \<Rightarrow> string \<Rightarrow> frame_client \<Rightarrow> (error \<times> frame_client) + frame_client" where
  "atr period name fc =
     (case save_indicator name (Atr_args period) fc of
        (fc1, nonempty) \<Rightarrow>
          if \<not> nonempty then Inr fc1
          else in_client fc1 (atr_body period (df fc1)))"

definition bbands_body :: "nat \<Rightarrow> real \<Rightarrow> frame \<Rightarrow> (error \<times> frame) + frame" where
  "bbands_body period std d =
     raise_at d (get_col d ''close'') (\<lambda>c1.
     let d1 = set_col ''bbands_ma'' (rolling period fmean c1) d in
     raise_at d1 (get_col d1 ''bbands_ma'') (\<lambda>ma1.
     let d2 = set_col ''bbands_std'' (rolling period fstd ma1) d1 in
     raise_at d2 (get_col d2 ''bbands_ma'') (\<lambda>ma2.
     raise_at d2 (get_col d2 ''bbands_std'') (\<lambda>sd2.
     let d3 = set_col ''bbands_up'' (series_add ma2 (series_scale std sd2)) d2 in
     raise_at d3 (get_col d3 ''bbands_ma'') (\<lambda>ma3.
     raise_at d3 (get_col d3 ''bbands_std'') (\<lambda>sd3.
     let d4 = set_col ''bbands_dn'' (series_sub ma3 (series_scale std sd3)) d3 in
     raise_at d4 (get_col d4 ''close'') (\<lambda>c4.
     raise_at d4 (get_col d4 ''bbands_dn'') (\<lambda>dn4.
     raise_at d4 (get_col d4 ''bbands_up'') (\<lambda>up4.
     raise_at d4 (get_col d4 ''bbands_dn'') (\<lambda>dn4'.
     let d5 = set_col ''bbands_percent''
                (series_div (series_sub c4 dn4) (series_sub up4 dn4')) d4 in
     raise_at d5 (drop_cols [''bbands_ma'', ''bbands_std'', ''bbands_up'', ''bbands_dn''] d5)
       Inr))))))))))"

definition bbands ::
  "nat \<Rightarrow> real \<Rightarrow> string \<Rightarrow> frame_client \<Rightarrow> (error \<times> frame_client) + frame_client" where
  "bbands period std name fc =
     (case save_indicator name (Bbands_args period std) fc of
        (fc1, nonempty) \<Rightarrow>
          if \<not> nonempty then Inr fc1
          else in_client fc1 (bbands_body period std (df fc1)))"

text \<open>\<^verbatim>\<open>indicator['func'](**indicator['args'])\<close> for the entry saved under \<open>name\<close>.\<close>

fun call_indicator ::
  "string \<times> indicator_args \<Rightarrow> frame_client \<Rightarrow> (error \<times> frame_client) + frame_client" where
  "call_indicator (name, Macd_args fast slow macd_period) fc = macd fast slow macd_period name fc"
| "call_indicator (name, Atr_args period) fc = atr period name fc"
| "call_indicator (name, Bbands_args period std) fc = bbands period std name fc"

text \<open>
  \<^verbatim>\<open>update\<close>: the loop over \<open>self.indicators.values()\<close>. Every call saves its own entry
  again under its own key, so the dict keeps its size and order while the loop runs. A
  call that raises ends the loop, with the client as that call left it.
\<close>

fun update_loop ::
  "(string \<times> indicator_args) list \<Rightarrow> frame_client \<Rightarrow> (error \<times> frame_client) + frame_client" where
  "update_loop [] fc = Inr fc"
| "update_loop (indicator # rest) fc = bind_err (call_indicator indicator fc) (update_loop rest)"

definition update :: "frame_client \<Rightarrow> (error \<times> frame_client) + frame_client" where
  "update fc = update_loop (indicators fc) fc"

text \<open>
  \<^verbatim>\<open>get_last_bars(n)\<close>, that is \<^verbatim>\<open>df.iloc[-n:]\<close>: the last \<open>n\<close> rows, and the whole
  frame for \<open>n = 0\<close> (the slice \<^verbatim>\<open>[-0:]\<close> starts at row 0).
\<close>

definition get_last_bars :: "nat \<Rightarrow> frame_client \<Rightarrow> frame" where
  "get_last_bars n fc = (if n = 0 then df fc else iloc_from (len (df fc) - n) (df fc))"

subsection \<open>add_rows\<close>

text \<open>
  The scan \<^verbatim>\<open>while i < len(rows) and self.df.index[-1] != rows.index[i]: i += 1\<close>,
  with \<open>lst\<close> the buffer's last timestamp and \<open>ridx\<close> the index of \<open>rows\<close>.
\<close>

function add_rows_scan :: "int \<Rightarrow> int list \<Rightarrow> nat \<Rightarrow> nat" where
  "add_rows_scan lst ridx i =
     (if i < length ridx \<and> lst \<noteq> ridx ! i then add_rows_scan lst ridx (i + 1) else i)"
  by pat_completeness auto
termination
  by (relation "measure (\<lambda>(lst, ridx, i). length ridx - i)") auto

declare add_rows_scan.simps [simp del]

text \<open>
  The first half of \<open>add_rows\<close>: the scan (skipped on an empty frame, where \<open>i\<close> stays
  0) and the append, giving the frame before the eviction.
\<close>

definition add_rows_merge :: "frame_client \<Rightarrow> frame \<Rightarrow> frame" where
  "add_rows_merge fc rows =
     (let i = (if \<not> df_empty (df fc)
               then add_rows_scan (last (index (df fc))) (index rows) 0 else 0)
      in if i = len rows \<or> i = 0 then df_append (df fc) rows
         else df_append (df fc) (iloc_from (i + 1) rows))"

text \<open>
  The second half: \<^verbatim>\<open>rows_drop = len(self.df) - self.max_size\<close>, and the first
  \<open>rows_drop\<close> rows go when it is positive.
\<close>

definition add_rows_evict :: "int \<Rightarrow> frame \<Rightarrow> frame" where
  "add_rows_evict ms d =
     (let rows_drop = int (len d) - ms
      in if rows_drop > 0 then iloc_from (nat rows_drop) d else d)"

definition add_rows :: "frame_client \<Rightarrow> frame \<Rightarrow> frame_client" where
  "add_rows fc rows = fc\<lparr>df := add_rows_evict (max_size fc) (add_rows_merge fc rows)\<rparr>"

section \<open>FxRobot\<close>

text \<open>
  The broker connection \<open>self.api\<close>. A call is recorded in a log, and what the broker
  answers may depend on the calls made before. The keyword arguments of an order are a
  list of name and value pairs.
\<close>

type_synonym fxcm_args = "(string \<times> string) list"

datatype api_call =
    Create_entry_order fxcm_args
  | Open_trade fxcm_args
  | Subscribe_instrument string
  | Unsubscribe_instrument string

record fxcm_order =
  orderId :: int

record fxcmpy =
  api_create_entry_order :: "api_call list \<Rightarrow> fxcm_args \<Rightarrow> fxcm_order option"
  api_open_trade :: "api_call list \<Rightarrow> fxcm_args \<Rightarrow> fxcm_order option"
  api_subscribe_instrument :: "api_call list \<Rightarrow> string \<Rightarrow> bool"
  api_unsubscribe_instrument :: "api_call list \<Rightarrow> string \<Rightarrow> bool"

text \<open>
  Modelled from the spec: the module \<open>common\<close> with the classes \<open>Trade\<close> and \<open>Portfolio\<close>
  is not among the source files. A Trade carries its order type and the broker's
  parameter bag; a Portfolio has an identifier and an ordered collection of orders, and
  \<open>add_order\<close> appends to it.
\<close>

record trade =
  get_order_type :: string
  get_fxcm_args :: fxcm_args

record portfolio =
  portfolio_id :: string
  orders :: "fxcm_order option list"

definition add_order :: "fxcm_order option \<Rightarrow> portfolio \<Rightarrow> portfolio" where
  "add_order order' p = p\<lparr>orders := orders p @ [order']\<rparr>"

text \<open>
  \<open>open_trade\<close>: the returned id, the portfolio and the call log afterwards. The log
  messages are not modelled.
\<close>

definition open_trade ::
  "fxcmpy \<Rightarrow> trade \<Rightarrow> portfolio \<Rightarrow> api_call list \<Rightarrow> int option \<times> portfolio \<times> api_call list" where
  "open_trade api t p calls =
     (let (order', calls') =
            (if get_order_type t = ''Entry''
             then (api_create_entry_order api calls (get_fxcm_args t),
                   calls @ [Create_entry_order (get_fxcm_args t)])
             else (api_open_trade api calls (get_fxcm_args t),
                   calls @ [Open_trade (get_fxcm_args t)]));
          id' = (case order' of Some ord \<Rightarrow> Some (orderId ord) | None \<Rightarrow> None)
      in (id', add_order order' p, calls'))"

text \<open>
  The \<open>symbols\<close> argument: a string or a sequence of strings. \<^verbatim>\<open>list(symbols)\<close> of a
  string is the list of its characters, each a string of length one.
\<close>

datatype symbols = Str string | Seq "string list"

fun symbols_list :: "symbols \<Rightarrow> string list" where
  "symbols_list (Str s) = map (\<lambda>c. [c]) s"
| "symbols_list (Seq xs) = xs"

text \<open>
  The loop \<^verbatim>\<open>for idx, symbol in enumerate(symbols): res[idx] = call(symbol)\<close>, with
  \<open>call\<close> the broker's method and \<open>mk\<close> the log entry of a call.
\<close>

fun instrument_loop ::
  "(api_call list \<Rightarrow> string \<Rightarrow> bool) \<Rightarrow> (string \<Rightarrow> api_call) \<Rightarrow> nat \<Rightarrow> string list \<Rightarrow>
   bool option list \<Rightarrow> api_call list \<Rightarrow> bool option list \<times> api_call list" where
  "instrument_loop call mk idx [] res calls = (res, calls)"
| "instrument_loop call mk idx (symbol # rest) res calls =
     instrument_loop call mk (idx + 1) rest (res[idx := Some (call calls symbol)]) (calls @ [mk symbol])"

definition subscribe_instrument ::
  "fxcmpy \<Rightarrow> symbols \<Rightarrow> api_call list \<Rightarrow> bool option list \<times> api_call list" where
  "subscribe_instrument api syms calls =
     (let symbols' = symbols_list syms
      in instrument_loop (api_subscribe_instrument api) Subscribe_instrument 0 symbols'
           (replicate (length symbols') None) calls)"

definition unsubscribe_instrument ::
  "fxcmpy \<Rightarrow> symbols \<Rightarrow> api_call list \<Rightarrow> bool option list \<times> api_call list" where
  "unsubscribe_instrument api syms calls =
     (let symbols' = symbols_list syms
      in instrument_loop (api_unsubscribe_instrument api) Unsubscribe_instrument 0 symbols'
           (replicate (length symbols') None) calls)"

subsection \<open>sleep_till_next_bar\<close>

text \<open>
  A \<open>pd.Timestamp\<close>: its \<open>value\<close> in nanoseconds since the epoch (of the UTC instant when
  it is timezone-aware, of the wall clock when naive) and its \<open>tzinfo\<close> (\<open>None\<close> when
  naive). A Timestamp and a Timedelta are 64-bit nanosecond counts; the least 64-bit
  value stands for not-a-time, which is no Timestamp and is left out here.
\<close>

record timestamp =
  "value" :: int
  tzinfo :: "string option"

definition in_bounds :: "int \<Rightarrow> bool" where
  "in_bounds v = (- (2 ^ 63) < v \<and> v < 2 ^ 63)"

text \<open>
  \<open>tz_localize('utc')\<close> reads a naive wall clock as UTC and refuses an aware timestamp;
  \<open>tz_convert('utc')\<close> keeps the instant of an aware timestamp and refuses a naive one.
  Both leave \<open>value\<close> as it is.
\<close>

definition tz_localize_utc :: "timestamp \<Rightarrow> error + timestamp" where
  "tz_localize_utc t = (if tzinfo t = None then Inr (t\<lparr>tzinfo := Some ''UTC''\<rparr>) else Inl TypeError)"

definition tz_convert_utc :: "timestamp \<Rightarrow> error + timestamp" where
  "tz_convert_utc t = (if tzinfo t = None then Inl TypeError else Inr (t\<lparr>tzinfo := Some ''UTC''\<rparr>))"

text \<open>\<open>pd.Timestamp.utcnow()\<close> when the clock reads \<open>now\<close>: an aware timestamp in UTC.\<close>

definition utcnow :: "int \<Rightarrow> timestamp" where
  "utcnow now = \<lparr>value = now, tzinfo = Some ''UTC''\<rparr>"

text \<open>\<open>timestamp + timedelta\<close>: out of bounds when the sum leaves the 64-bit range.\<close>

definition timestamp_add :: "timestamp \<Rightarrow> int \<Rightarrow> error + timestamp" where
  "timestamp_add t timedelta =
     (if in_bounds (value t + timedelta) then Inr (t\<lparr>value := value t + timedelta\<rparr>)
      else Inl OutOfBoundsDatetime)"

text \<open>
  \<open>a - b\<close> of two timestamps, a Timedelta in nanoseconds: a TypeError when one is naive
  and the other aware, out of bounds when the difference leaves the 64-bit range. (Older
  pandas also refuses two aware timestamps of different zones; \<open>sleep_till_next_bar\<close>
  subtracts two timestamps in UTC.)
\<close>

definition timestamp_sub :: "timestamp \<Rightarrow> timestamp \<Rightarrow> error + int" where
  "timestamp_sub a b =
     (if (tzinfo a = None) \<noteq> (tzinfo b = None) then Inl TypeError
      else if in_bounds (value a - value b) then Inr (value a - value b)
      else Inl OutOfBoundsDatetime)"

text \<open>
  \<open>Timedelta.total_seconds()\<close>: the duration in seconds to microsecond precision,
  \<^verbatim>\<open>(value - value % 1000) / 1e9\<close>.
\<close>

definition total_seconds :: "int \<Rightarrow> real" where
  "total_seconds v = real_of_int (v - v mod 1000) / 1000000000"

text \<open>Lines 44 to 46: the timestamp in UTC.\<close>

definition normalize_utc :: "int \<Rightarrow> timestamp option \<Rightarrow> error + timestamp" where
  "normalize_utc now1 last_timestamp =
     (case last_timestamp of
        None \<Rightarrow> Inr (utcnow now1)
      | Some t \<Rightarrow> if tzinfo t = None then tz_localize_utc t else tz_convert_utc t)"

text \<open>
  The clock is read at most twice: \<open>now1\<close> is what \<open>utcnow()\<close> answers for an absent
  timestamp, \<open>now2\<close> what it answers when the delta is computed. \<open>timedelta\<close> is in
  nanoseconds. The result is the argument of \<open>time.sleep\<close>, in seconds, or the error
  raised before the sleep.
\<close>

definition sleep_till_next_bar :: "int \<Rightarrow> int \<Rightarrow> timestamp option \<Rightarrow> int \<Rightarrow> error + real" where
  "sleep_till_next_bar now1 now2 last_timestamp timedelta =
     bind_err (normalize_utc now1 last_timestamp) (\<lambda>last_timestamp'.
     bind_err (timestamp_add last_timestamp' timedelta) (\<lambda>next_timestamp.
     bind_err (timestamp_sub next_timestamp (utcnow now2)) (\<lambda>diff.
     let delta = total_seconds diff
     in Inr (max (1 / 10) delta))))"

section \<open>Reference definitions and concrete inputs\<close>

text \<open>
  The scan as the specification words it: the index of the first bar of \<open>rows\<close> whose
  timestamp differs from the buffer's last timestamp, and the merge that follows from it.
\<close>

definition first_differing :: "int \<Rightarrow> int list \<Rightarrow> nat" where
  "first_differing lst ridx = length (takeWhile (\<lambda>t. t = lst) ridx)"

definition add_rows_merge_claimed :: "frame_client \<Rightarrow> frame \<Rightarrow> frame" where
  "add_rows_merge_claimed fc rows =
     (let i = first_differing (last (index (df fc))) (index rows)
      in if i = len rows \<or> i = 0 then df_append (df fc) rows
         else df_append (df fc) (iloc_from (i + 1) rows))"

text \<open>Bars with the given timestamps (the close of a bar is its timestamp).\<close>

definition bars :: "int list \<Rightarrow> frame" where
  "bars ts = \<lparr>index = ts, columns = [(''close'', map (\<lambda>t. Fin (real_of_int t)) ts)]\<rparr>"

definition buffer_of :: "int \<Rightarrow> int list \<Rightarrow> frame_client" where
  "buffer_of ms ts = \<lparr>df = bars ts, max_size = ms, indicators = []\<rparr>"

text \<open>
  What each indicator method computes, read off its body: the series it assigns to its
  output column (or the error it raises), the column it assigns last, and the columns it
  drops.
\<close>

definition ewm :: "nat \<Rightarrow> fval list \<Rightarrow> fval list" where
  "ewm n xs = ewm_loop (2 / (real n + 1)) (max n 1) NaN 1 0 (prep_values xs)"

definition macd_series :: "nat \<Rightarrow> nat \<Rightarrow> nat \<Rightarrow> fval list \<Rightarrow> fval list" where
  "macd_series fast slow macd_period close =
     ewm macd_period (series_sub (ewm fast close) (ewm slow close))"

definition atr_series :: "nat \<Rightarrow> fval list \<Rightarrow> fval list \<Rightarrow> fval list \<Rightarrow> fval list" where
  "atr_series period high low close =
     rolling period fmean
       (row_max3 (series_abs (series_sub high low))
                 (series_abs (series_sub high (shift1 close)))
                 (series_abs (series_sub low (shift1 close))))"

definition bbands_series :: "nat \<Rightarrow> real \<Rightarrow> fval list \<Rightarrow> fval list" where
  "bbands_series period std close =
     (let ma = rolling period fmean close;
          sd = rolling period fstd ma;
          up = series_add ma (series_scale std sd);
          dn = series_sub ma (series_scale std sd)
      in series_div (series_sub close dn) (series_sub up dn))"

fun indicator_series :: "indicator_args \<Rightarrow> frame \<Rightarrow> error + fval list" where
  "indicator_series (Macd_args fast slow macd_period) d =
     bind_err (get_col d ''close'') (\<lambda>close.
       if fast < 1 \<or> slow < 1 \<or> macd_period < 1 then Inl ValueError
       else Inr (macd_series fast slow macd_period close))"
| "indicator_series (Atr_args period) d =
     bind_err (get_col d ''high'') (\<lambda>high.
     bind_err (get_col d ''low'') (\<lambda>low.
     bind_err (get_col d ''close'') (\<lambda>close.
       Inr (atr_series period high low close))))"
| "indicator_series (Bbands_args period std) d =
     bind_err (get_col d ''close'') (\<lambda>close. Inr (bbands_series period std close))"

fun out_column :: "indicator_args \<Rightarrow> string" where
  "out_column (Macd_args fast slow macd_period) = ''macd''"
| "out_column (Atr_args period) = ''atr''"
| "out_column (Bbands_args period std) = ''bbands_percent''"

fun temp_columns :: "indicator_args \<Rightarrow> string list" where
  "temp_columns (Macd_args fast slow macd_period) = [''macd_fast'', ''macd_slow'', ''macd_diff'']"
| "temp_columns (Atr_args period) = [''tr_hl'', ''tr_hp'', ''tr_lp'', ''tr'']"
| "temp_columns (Bbands_args period std) =
     [''bbands_ma'', ''bbands_std'', ''bbands_up'', ''bbands_dn'']"

fun indicator_body :: "indicator_args \<Rightarrow> frame \<Rightarrow> (error \<times> frame) + frame" where
  "indicator_body (Macd_args fast slow macd_period) d = macd_body fast slow macd_period d"
| "indicator_body (Atr_args period) d = atr_body period d"
| "indicator_body (Bbands_args period std) d = bbands_body period std d"

text \<open>The frame with the output column assigned and the temporary columns gone.\<close>

definition with_output :: "indicator_args \<Rightarrow> fval list \<Rightarrow> frame \<Rightarrow> frame" where
  "with_output a s d =
     d\<lparr>columns := dict_set (out_column a) s
                     (filter (\<lambda>(c, vs). c \<notin> set (temp_columns a)) (columns d))\<rparr>"

text \<open>
  The frame a body leaves when it raises: \<open>macd\<close> has assigned \<open>macd_fast\<close> when the
  slow span is refused, and all three temporary columns when the signal span is;
  \<open>atr\<close> has assigned \<open>tr_hl\<close> when close is missing; any other error comes before the
  first assignment.
\<close>

fun raised_frame :: "indicator_args \<Rightarrow> frame \<Rightarrow> frame" where
  "raised_frame (Macd_args fast slow macd_period) d =
     (case get_col d ''close'' of
        Inl e \<Rightarrow> d
      | Inr close \<Rightarrow>
          if fast < 1 then d
          else if slow < 1 then set_col ''macd_fast'' (ewm fast close) d
          else set_col ''macd_diff'' (series_sub (ewm fast close) (ewm slow close))
                 (set_col ''macd_slow'' (ewm slow close)
                    (set_col ''macd_fast'' (ewm fast close) d)))"
| "raised_frame (Atr_args period) d =
     (case get_col d ''high'' of
        Inl e \<Rightarrow> d
      | Inr high \<Rightarrow>
          (case get_col d ''low'' of
             Inl e \<Rightarrow> d
           | Inr low \<Rightarrow> set_col ''tr_hl'' (series_abs (series_sub high low)) d))"
| "raised_frame (Bbands_args period std) d = d"

text \<open>What a body does, in one step: the output or the error, and the frame left.\<close>

definition computed :: "indicator_args \<Rightarrow> frame \<Rightarrow> (error \<times> frame) + frame" where
  "computed a d =
     (case indicator_series a d of
        Inl e \<Rightarrow> Inl (e, raised_frame a d)
      | Inr s \<Rightarrow> Inr (with_output a s d))"

text \<open>The bodies of the registered indicators, one after the other, until one raises.\<close>

fun run_bodies :: "indicator_args list \<Rightarrow> frame \<Rightarrow> (error \<times> frame) + frame" where
  "run_bodies [] d = Inr d"
| "run_bodies (a # as) d = bind_err (indicator_body a d) (run_bodies as)"

text \<open>Every column is as long as the index.\<close>

definition frame_ok :: "frame \<Rightarrow> bool" where
  "frame_ok d = list_all (\<lambda>(c, vs). length vs = length (index d)) (columns d)"

text \<open>
  Percent-b as the specification words it: the rolling standard deviation is taken of
  close.
\<close>

definition bbands_percent_claimed :: "nat \<Rightarrow> real \<Rightarrow> fval list \<Rightarrow> fval list" where
  "bbands_percent_claimed period std close =
     (let ma = rolling period fmean close;
          sd = rolling period fstd close;
          up = series_add ma (series_scale std sd);
          dn = series_sub ma (series_scale std sd)
      in series_div (series_sub close dn) (series_sub up dn))"

text \<open>What the broker answers to the calls of the instrument loop, in order.\<close>

fun answers ::
  "(api_call list \<Rightarrow> string \<Rightarrow> bool) \<Rightarrow> (string \<Rightarrow> api_call) \<Rightarrow> api_call list \<Rightarrow>
   string list \<Rightarrow> bool list" where
  "answers call mk calls [] = []"
| "answers call mk calls (symbol # rest) =
     call calls symbol # answers call mk (calls @ [mk symbol]) rest"

text \<open>A broker stub that answers every order placement with \<open>answer\<close>.\<close>

definition broker_stub :: "fxcm_order option \<Rightarrow> fxcmpy" where
  "broker_stub answer =
     \<lparr>api_create_entry_order = (\<lambda>calls args. answer),
      api_open_trade = (\<lambda>calls args. answer),
      api_subscribe_instrument = (\<lambda>calls symbol. True),
      api_unsubscribe_instrument = (\<lambda>calls symbol. True)\<rparr>"

text \<open>A client with two indicators registered and no data yet.\<close>

definition registered :: frame_client where
  "registered = \<lparr>df = DataFrame, max_size = 1000,
     indicators = [(''macd'', Macd_args 12 26 9), (''atr'', Atr_args 20)]\<rparr>"

text \<open>
  The client over the bars 1, 2 after \<open>macd(1, 1, 1, name='m1')\<close>, and after
  \<open>macd(2, 1, 1, name='m2')\<close> on top of that.
\<close>

definition two_macd_1 :: frame_client where
  "two_macd_1 =
     \<lparr>df = \<lparr>index = [1, 2],
             columns = [(''close'', [Fin 1, Fin 2]), (''macd'', [Fin 0, Fin 0])]\<rparr>,
      max_size = 1000,
      indicators = [(''m1'', Macd_args 1 1 1)]\<rparr>"

definition two_macd_2 :: frame_client where
  "two_macd_2 =
     \<lparr>df = \<lparr>index = [1, 2],
             columns = [(''close'', [Fin 1, Fin 2]), (''macd'', [NaN, Fin (- 1 / 4)])]\<rparr>,
      max_size = 1000,
      indicators = [(''m1'', Macd_args 1 1 1), (''m2'', Macd_args 2 1 1)]\<rparr>"

text \<open>A client over the bars 1, 2 with a close column only, and the registry \<open>reg\<close>.\<close>

definition close_only :: "(string \<times> indicator_args) list \<Rightarrow> frame_client" where
  "close_only reg = \<lparr>df = bars [1, 2], max_size = 1000, indicators = reg\<rparr>"

section \<open>The deduplicating merge of add_rows\<close>

lemmas add_rows_eval = add_rows_def add_rows_merge_def add_rows_evict_def df_empty_def
  len_def add_rows_scan.simps df_append_def iloc_from_def append_names_def col_or_nan_def
  bars_def buffer_of_def

lemma add_rows_scan_takeWhile:
  "i \<le> length ridx \<Longrightarrow>
   add_rows_scan lst ridx i = i + length (takeWhile (\<lambda>t. t \<noteq> lst) (drop i ridx))"
proof (induction lst ridx i rule: add_rows_scan.induct)
  case (1 lst ridx i)
  show ?case
  proof (cases "i < length ridx")
    case True
    then have d: "drop i ridx = ridx ! i # drop (Suc i) ridx"
      by (simp add: Cons_nth_drop_Suc)
    show ?thesis
    proof (cases "lst \<noteq> ridx ! i")
      case ne: True
      with True "1.IH" have "add_rows_scan lst ridx (i + 1)
          = (i + 1) + length (takeWhile (\<lambda>t. t \<noteq> lst) (drop (i + 1) ridx))"
        by simp
      with True ne d show ?thesis
        by (subst add_rows_scan.simps) simp
    next
      case False
      with d show ?thesis
        by (subst add_rows_scan.simps) simp
    qed
  next
    case False
    with "1.prems" have "i = length ridx" by simp
    then show ?thesis
      by (subst add_rows_scan.simps) simp
  qed
qed

lemma add_rows_scan_0:
  "add_rows_scan lst ridx 0 = length (takeWhile (\<lambda>t. t \<noteq> lst) ridx)"
  using add_rows_scan_takeWhile [of 0 ridx lst] by simp

text \<open>
  C4, as the code has it. For a non-empty buffer, \<open>i\<close> is the index of the first bar of
  \<open>rows\<close> whose timestamp equals the buffer's last timestamp (\<open>len(rows)\<close> when there is
  none): no bar before \<open>i\<close> has that timestamp, and the bar at \<open>i\<close> has it. When
  \<open>i = len(rows)\<close> or \<open>i = 0\<close> all of \<open>rows\<close> is appended, otherwise exactly
  \<open>rows[i+1:]\<close>, and the eviction follows.
\<close>

theorem add_rows_overlap_index:
  assumes "\<not> df_empty (df fc)"
  shows "(let lst = last (index (df fc));
              i = length (takeWhile (\<lambda>t. t \<noteq> lst) (index rows))
          in add_rows fc rows =
               fc\<lparr>df := add_rows_evict (max_size fc)
                  (df_append (df fc)
                     (if i = len rows \<or> i = 0 then rows else iloc_from (i + 1) rows))\<rparr>
             \<and> (\<forall>j < i. index rows ! j \<noteq> lst)
             \<and> (i < len rows \<longrightarrow> index rows ! i = lst))"
proof -
  define lst where "lst = last (index (df fc))"
  define i where "i = length (takeWhile (\<lambda>t. t \<noteq> lst) (index rows))"
  have scan: "add_rows_scan lst (index rows) 0 = i"
    by (simp add: add_rows_scan_0 i_def)
  have 1: "add_rows fc rows =
             fc\<lparr>df := add_rows_evict (max_size fc)
                (df_append (df fc)
                   (if i = len rows \<or> i = 0 then rows else iloc_from (i + 1) rows))\<rparr>"
    using assms scan by (simp add: add_rows_def add_rows_merge_def lst_def)
  have 2: "\<forall>j < i. index rows ! j \<noteq> lst"
    unfolding i_def
    by (metis (mono_tags, lifting) nth_mem set_takeWhileD takeWhile_nth)
  have 3: "i < len rows \<longrightarrow> index rows ! i = lst"
    unfolding i_def len_def using nth_length_takeWhile by blast
  show ?thesis
    unfolding Let_def lst_def [symmetric] i_def [symmetric]
    by (intro conjI 1 2 3)
qed

theorem add_rows_overlap_index_witness:
  "\<not> df_empty (df (buffer_of 1000 [1, 2, 3]))
   \<and> length (takeWhile (\<lambda>t. t \<noteq> 3) (index (bars [2, 3, 4]))) = 1
   \<and> add_rows (buffer_of 1000 [1, 2, 3]) (bars [2, 3, 4]) =
       (buffer_of 1000 [1, 2, 3])\<lparr>df := df_append (bars [1, 2, 3]) (bars [4])\<rparr>
   \<and> index (bars [2, 3, 4]) ! 0 \<noteq> 3
   \<and> index (bars [2, 3, 4]) ! 1 = 3"
proof -
  have h: "\<not> df_empty (df (buffer_of 1000 [1, 2, 3]))"
    by (simp add: df_empty_def buffer_of_def bars_def)
  show ?thesis
    using h add_rows_overlap_index [OF h, of "bars [2, 3, 4]"]
    by (simp add: add_rows_eval)
qed

text \<open>
  The claim's wording of C4 (the first bar whose timestamp differs) against the code, on
  the buffer 1, 2, 3 and the rows 2, 3, 4: worded so, the scan stops at index 0 and all
  three rows are appended; the code finds the bar equal to 3 at index 1 and appends the
  bar 4 alone.
\<close>

theorem add_rows_differs_counterexample:
  "index (add_rows_merge (buffer_of 1000 [1, 2, 3]) (bars [2, 3, 4])) = [1, 2, 3, 4]
   \<and> index (add_rows_merge_claimed (buffer_of 1000 [1, 2, 3]) (bars [2, 3, 4]))
       = [1, 2, 3, 2, 3, 4]"
  by (simp add: add_rows_eval add_rows_merge_claimed_def first_differing_def)

text \<open>
  C1 at a one-bar overlap. The buffer holds the bars 1, 2, 3 and the broker delivers the
  last bar again followed by a new one (3, 4): the match is at index 0, which the code
  treats like no match, so the bar 3 is in the buffer twice.
\<close>

theorem add_rows_one_bar_overlap:
  "index (df (add_rows (buffer_of 1000 [1, 2, 3]) (bars [3, 4]))) = [1, 2, 3, 3, 4]
   \<and> \<not> distinct (index (df (add_rows (buffer_of 1000 [1, 2, 3]) (bars [3, 4]))))"
  by (simp add: add_rows_eval)

text \<open>
  The sibling path: when the overlap is two bars or more, the match is at an index
  \<open>i \<ge> 1\<close>, only the new bars are appended, and the buffer stays strictly ascending and
  free of duplicates.
\<close>

lemma index_df_append [simp]: "index (df_append d other) = index d @ index other"
  by (simp add: df_append_def)

lemma index_iloc_from [simp]: "index (iloc_from k d) = drop k (index d)"
  by (simp add: iloc_from_def)

lemma index_add_rows_evict: "\<exists>k. index (add_rows_evict ms d) = drop k (index d)"
proof (cases "int (len d) - ms > 0")
  case True
  then show ?thesis by (auto simp: add_rows_evict_def Let_def)
next
  case False
  then have "index (add_rows_evict ms d) = drop 0 (index d)"
    by (simp add: add_rows_evict_def Let_def)
  then show ?thesis by blast
qed

lemma add_rows_dedup_overlap:
  assumes b: "index (df fc) = before @ overlap"
    and r: "index rows = overlap @ new"
    and two: "2 \<le> length overlap"
    and sb: "sorted_wrt (<) (before @ overlap)"
    and sr: "sorted_wrt (<) (overlap @ new)"
    and cols: "columns (df fc) \<noteq> []"
  shows "index (add_rows_merge fc rows) = before @ overlap @ new
       \<and> sorted_wrt (<) (index (df (add_rows fc rows)))
       \<and> distinct (index (df (add_rows fc rows)))"
proof -
  from two obtain ov l where ov: "overlap = ov @ [l]" and ne: "ov \<noteq> []"
    by (cases overlap rule: rev_cases) (auto simp: Suc_le_eq)
  have lst: "last (index (df fc)) = l"
    by (simp add: b ov)
  from sr have "\<forall>x \<in> set ov. x < l"
    by (auto simp: ov sorted_wrt_append)
  then have "\<forall>x \<in> set ov. x \<noteq> l"
    by auto
  then have tw: "takeWhile (\<lambda>t. t \<noteq> l) (index rows) = ov"
    by (simp add: r ov takeWhile_tail)
  have nonempty: "\<not> df_empty (df fc)"
    using cols by (simp add: df_empty_def b ov)
  from ne have i0: "length ov \<noteq> 0" by simp
  have ilen: "length ov \<noteq> len rows"
    by (simp add: len_def r ov)
  have scan: "add_rows_scan (last (index (df fc))) (index rows) 0 = length ov"
    unfolding lst add_rows_scan_0 tw ..
  have "add_rows_merge fc rows = df_append (df fc) (iloc_from (length ov + 1) rows)"
    unfolding add_rows_merge_def scan using nonempty i0 ilen by simp
  then have m: "index (add_rows_merge fc rows) = before @ overlap @ new"
    by (simp add: b r ov)
  from sb sr have s: "sorted_wrt (<) (before @ overlap @ new)"
    by (fastforce simp: ov sorted_wrt_append)
  obtain k where k: "index (df (add_rows fc rows)) = drop k (index (add_rows_merge fc rows))"
    using index_add_rows_evict [of "max_size fc" "add_rows_merge fc rows"]
    by (auto simp: add_rows_def)
  from s have s': "sorted_wrt (<) (index (df (add_rows fc rows)))"
    unfolding k m by (rule sorted_wrt_drop)
  then have "distinct (index (df (add_rows fc rows)))"
    using strict_sorted_iff by blast
  with m s' show ?thesis by blast
qed

section \<open>The bound on the buffer\<close>


lemma len_df_append: "len (df_append d other) = len d + len other"
  by (simp add: len_def df_append_def)








section \<open>Columns and the registry\<close>

lemma map_of_dict_set [simp]:
  "map_of (dict_set k v kvs) k' = (if k' = k then Some v else map_of kvs k')"
  by (induction kvs) auto

lemma keys_dict_set:
  "map fst (dict_set k v kvs) = (if k \<in> set (map fst kvs) then map fst kvs else map fst kvs @ [k])"
  by (induction kvs) force+

lemma set_keys_dict_set [simp]: "fst ` set (dict_set k v kvs) = insert k (fst ` set kvs)"
proof -
  have "set (map fst (dict_set k v kvs)) = insert k (set (map fst kvs))"
    unfolding keys_dict_set by auto
  then show ?thesis by simp
qed

lemma dict_set_not_Nil [simp]: "dict_set k v kvs \<noteq> []"
  by (cases kvs) (auto split: if_splits)

lemma filter_dict_set_in:
  "\<not> P k \<Longrightarrow> filter (\<lambda>(c, vs). P c) (dict_set k v kvs) = filter (\<lambda>(c, vs). P c) kvs"
  by (induction kvs) (auto split: if_splits)

lemma filter_dict_set_notin:
  "P k \<Longrightarrow>
   filter (\<lambda>(c, vs). P c) (dict_set k v kvs) = dict_set k v (filter (\<lambda>(c, vs). P c) kvs)"
  by (induction kvs) (auto split: if_splits)

lemma map_of_filter_keys:
  "map_of (filter (\<lambda>(c, vs). P c) kvs) k = (if P k then map_of kvs k else None)"
  by (induction kvs) auto

lemma get_col_set_col [simp]:
  "get_col (set_col k v d) k' = (if k' = k then Inr v else get_col d k')"
  by (simp add: get_col_def set_col_def)

lemma columns_set_col [simp]: "columns (set_col k v d) = dict_set k v (columns d)"
  by (simp add: set_col_def)

lemma index_set_col [simp]: "index (set_col k v d) = index d"
  by (simp add: set_col_def)

lemma columns_update_set_col [simp]: "(set_col k v d)\<lparr>columns := cs\<rparr> = d\<lparr>columns := cs\<rparr>"
  by (simp add: set_col_def)

lemma bind_err_simps [simp]:
  "bind_err (Inl e) f = Inl e" "bind_err (Inr x) f = f x"
  by (simp_all add: bind_err_def)

lemma raise_at_simps [simp]:
  "raise_at st (Inl e) f = Inl (e, st)" "raise_at st (Inr x) f = f x"
  by (simp_all add: raise_at_def)

lemma state_after_simps [simp]:
  "state_after (Inl (e, st)) = st" "state_after (Inr st) = st"
  by (simp_all add: state_after_def)

lemma in_client_simps [simp]:
  "in_client fc (Inl (e, d)) = Inl (e, fc\<lparr>df := d\<rparr>)" "in_client fc (Inr d) = Inr (fc\<lparr>df := d\<rparr>)"
  by (simp_all add: in_client_def)

lemma drop_cols_present:
  "set cs \<subseteq> fst ` set (columns d) \<Longrightarrow>
   drop_cols cs d = Inr (d\<lparr>columns := filter (\<lambda>(c, vs). c \<notin> set cs) (columns d)\<rparr>)"
proof -
  assume "set cs \<subseteq> fst ` set (columns d)"
  then have "filter (\<lambda>c. c \<notin> set (map fst (columns d))) cs = []"
    by (auto simp: filter_empty_conv)
  then show ?thesis by (simp add: drop_cols_def)
qed

lemma macd_body_closed:
  "macd_body fast slow macd_period d = computed (Macd_args fast slow macd_period) d"
proof (cases "get_col d ''close''")
  case (Inl e)
  then show ?thesis by (simp add: macd_body_def computed_def)
next
  case (Inr close)
  then show ?thesis
    by (simp add: macd_body_def computed_def ewm_mean_def macd_series_def ewm_def
        with_output_def drop_cols_present Let_def filter_dict_set_in filter_dict_set_notin)
qed

lemma atr_body_closed: "atr_body period d = computed (Atr_args period) d"
proof (cases "get_col d ''high''")
  case (Inl e)
  then show ?thesis by (simp add: atr_body_def computed_def)
next
  case h: (Inr high)
  show ?thesis
  proof (cases "get_col d ''low''")
    case (Inl e)
    with h show ?thesis by (simp add: atr_body_def computed_def)
  next
    case l: (Inr low)
    show ?thesis
    proof (cases "get_col d ''close''")
      case (Inl e)
      with h l show ?thesis by (simp add: atr_body_def computed_def Let_def)
    next
      case (Inr close)
      with h l show ?thesis
        by (simp add: atr_body_def computed_def atr_series_def with_output_def
            drop_cols_present Let_def filter_dict_set_in filter_dict_set_notin)
    qed
  qed
qed

lemma bbands_body_closed: "bbands_body period std d = computed (Bbands_args period std) d"
proof (cases "get_col d ''close''")
  case (Inl e)
  then show ?thesis by (simp add: bbands_body_def computed_def)
next
  case (Inr close)
  then show ?thesis
    by (simp add: bbands_body_def computed_def bbands_series_def with_output_def
        drop_cols_present Let_def filter_dict_set_in filter_dict_set_notin)
qed

lemma indicator_body_closed: "indicator_body a d = computed a d"
  by (cases a) (simp_all add: macd_body_closed atr_body_closed bbands_body_closed)

lemma call_indicator_closed:
  "call_indicator (name, a) fc =
     (if df_empty (df fc) then Inr (fc\<lparr>indicators := dict_set name a (indicators fc)\<rparr>)
      else in_client (fc\<lparr>indicators := dict_set name a (indicators fc)\<rparr>) (computed a (df fc)))"
  by (cases a)
     (simp_all add: macd_def atr_def bbands_def save_indicator_def macd_body_closed
        atr_body_closed bbands_body_closed)

lemma index_with_output [simp]: "index (with_output a s d) = index d"
  by (simp add: with_output_def)

lemma df_empty_with_output [simp]: "df_empty (with_output a s d) = (index d = [])"
  by (simp add: with_output_def df_empty_def)

lemma get_col_with_output:
  "c \<noteq> out_column a \<Longrightarrow> c \<notin> set (temp_columns a) \<Longrightarrow>
   get_col (with_output a s d) c = get_col d c"
  by (simp add: with_output_def get_col_def map_of_filter_keys)


lemma indicator_series_with_output [simp]:
  "indicator_series a (with_output a' s d) = indicator_series a d"
  by (cases a; cases a') (simp_all add: get_col_with_output)


lemma computed_Inr:
  "computed a d = Inr d' \<Longrightarrow> \<exists>s. indicator_series a d = Inr s \<and> d' = with_output a s d"
  by (cases "indicator_series a d") (simp_all add: computed_def)

lemma dict_set_same:
  "distinct (map fst reg) \<Longrightarrow> (k, v) \<in> set reg \<Longrightarrow> dict_set k v reg = reg"
  by (induction reg) (auto simp: rev_image_eqI)

lemma in_client_df [simp]: "in_client (fc\<lparr>df := d1\<rparr>) r = in_client fc r"
  by (cases r) (auto simp: in_client_def)

lemma update_loop_closed:
  "distinct (map fst (indicators fc)) \<Longrightarrow> set inds \<subseteq> set (indicators fc) \<Longrightarrow>
   update_loop inds fc =
     (if df_empty (df fc) then Inr fc
      else in_client fc (run_bodies (map snd inds) (df fc)))"
proof (induction inds arbitrary: fc)
  case Nil
  then show ?case by simp
next
  case (Cons ind inds)
  obtain name a where ind: "ind = (name, a)" by (cases ind)
  from Cons.prems ind have same: "dict_set name a (indicators fc) = indicators fc"
    by (simp add: dict_set_same)
  show ?case
  proof (cases "df_empty (df fc)")
    case True
    with Cons same ind show ?thesis
      by (simp add: call_indicator_closed)
  next
    case False
    show ?thesis
    proof (cases "computed a (df fc)")
      case (Inl ed)
      obtain e d' where ed: "ed = (e, d')" by (cases ed)
      from False Inl ind same show ?thesis
        by (simp add: call_indicator_closed indicator_body_closed ed)
    next
      case (Inr d1)
      then obtain s where d1: "d1 = with_output a s (df fc)"
        using computed_Inr by blast
      from False have ne: "\<not> df_empty d1"
        unfolding d1 df_empty_with_output by (simp add: df_empty_def)
      have "update_loop inds (fc\<lparr>df := d1\<rparr>) =
              (if df_empty (df (fc\<lparr>df := d1\<rparr>)) then Inr (fc\<lparr>df := d1\<rparr>)
               else in_client (fc\<lparr>df := d1\<rparr>) (run_bodies (map snd inds) (df (fc\<lparr>df := d1\<rparr>))))"
        using Cons.prems by (intro Cons.IH) auto
      with ne have "update_loop inds (fc\<lparr>df := d1\<rparr>) =
              in_client fc (run_bodies (map snd inds) d1)"
        by simp
      with False Inr ind same show ?thesis
        by (simp add: call_indicator_closed indicator_body_closed)
    qed
  qed
qed

lemma update_loop_empty:
  "df_empty (df fc) \<Longrightarrow>
   \<exists>fc'. update_loop inds fc = Inr fc' \<and> df fc' = df fc \<and> max_size fc' = max_size fc"
proof (induction inds arbitrary: fc)
  case Nil
  then show ?case by simp
next
  case (Cons ind inds)
  obtain name a where ind: "ind = (name, a)" by (cases ind)
  let ?fc1 = "fc\<lparr>indicators := dict_set name a (indicators fc)\<rparr>"
  from Cons.prems have "df_empty (df ?fc1)" by simp
  from Cons.IH [OF this] Cons.prems ind show ?case
    by (simp add: call_indicator_closed)
qed

lemma length_prep_values [simp]: "length (prep_values xs) = length xs"
  by (simp add: prep_values_def)

lemma length_ewm_loop [simp]: "length (ewm_loop al mp w ow n xs) = length xs"
  by (induction xs arbitrary: w ow n) (simp_all add: Let_def)

lemma length_rolling [simp]: "length (rolling n agg xs) = length xs"
  by (simp add: rolling_def)

lemma length_shift1 [simp]: "length (shift1 xs) = length xs"
  by (simp add: shift1_def)

lemma get_col_frame_ok:
  "frame_ok d \<Longrightarrow> get_col d c = Inr vs \<Longrightarrow> length vs = length (index d)"
  by (auto simp: frame_ok_def get_col_def list_all_iff split: option.splits dest!: map_of_SomeD)

lemma length_indicator_series:
  assumes "frame_ok d" and "indicator_series a d = Inr s"
  shows "length s = len d"
proof (cases a)
  case (Macd_args fast slow macd_period)
  with assms show ?thesis
    by (cases "get_col d ''close''")
       (auto simp: len_def macd_series_def ewm_def series_sub_def
             dest: get_col_frame_ok split: if_splits)
next
  case (Atr_args period)
  with assms(2) obtain high low close where
    h: "get_col d ''high'' = Inr high" and l: "get_col d ''low'' = Inr low"
    and c: "get_col d ''close'' = Inr close" and s: "s = atr_series period high low close"
    by (cases "get_col d ''high''"; cases "get_col d ''low''"; cases "get_col d ''close''") auto
  from h l c assms(1) have "length high = length (index d)" "length low = length (index d)"
    "length close = length (index d)"
    by (auto dest: get_col_frame_ok)
  then show ?thesis
    by (simp add: s len_def atr_series_def row_max3_def series_abs_def series_sub_def)
next
  case (Bbands_args period std)
  with assms show ?thesis
    by (cases "get_col d ''close''")
       (auto simp: len_def bbands_series_def Let_def series_div_def series_sub_def
                   series_add_def series_scale_def
             dest: get_col_frame_ok)
qed



lemma call_indicator_state:
  "indicators (state_after (call_indicator (name, a) fc)) = dict_set name a (indicators fc)"
proof (cases "df_empty (df fc)")
  case True
  then show ?thesis by (simp add: call_indicator_closed)
next
  case False
  show ?thesis
  proof (cases "computed a (df fc)")
    case (Inl ed)
    obtain e d' where "ed = (e, d')" by (cases ed)
    with False Inl show ?thesis by (simp add: call_indicator_closed)
  next
    case (Inr d1)
    with False show ?thesis by (simp add: call_indicator_closed)
  qed
qed




section \<open>Indicators on an empty frame\<close>

text \<open>
  C9. While the frame is empty, \<open>update()\<close> returns without an error and leaves the frame
  as it is, and so does each registration method (\<open>macd\<close>, \<open>atr\<close>, \<open>bbands\<close>), which only
  stores its spec: no column is added.
\<close>

theorem empty_frame_untouched:
  assumes "df_empty (df fc)"
  shows "(\<exists>fc'. update fc = Inr fc' \<and> df fc' = df fc)
       \<and> macd fast slow macd_period name fc =
           Inr (fc\<lparr>indicators := dict_set name (Macd_args fast slow macd_period) (indicators fc)\<rparr>)
       \<and> atr period name fc =
           Inr (fc\<lparr>indicators := dict_set name (Atr_args period) (indicators fc)\<rparr>)
       \<and> bbands period std name fc =
           Inr (fc\<lparr>indicators := dict_set name (Bbands_args period std) (indicators fc)\<rparr>)"
proof (intro conjI)
  from update_loop_empty [OF assms, of "indicators fc"]
  show "\<exists>fc'. update fc = Inr fc' \<and> df fc' = df fc"
    by (auto simp: update_def)
qed (use assms in \<open>simp_all add: macd_def atr_def bbands_def save_indicator_def\<close>)

theorem empty_frame_untouched_witness:
  "df_empty (df registered)
   \<and> update registered = Inr registered
   \<and> macd 12 26 9 ''macd'' registered = Inr registered
   \<and> atr 20 ''atr'' registered = Inr registered
   \<and> bbands 20 2 ''bbands'' registered =
       Inr (registered\<lparr>indicators :=
         [(''macd'', Macd_args 12 26 9), (''atr'', Atr_args 20), (''bbands'', Bbands_args 20 2)]\<rparr>)"
proof -
  have h: "df_empty (df registered)"
    by (simp add: registered_def df_empty_def DataFrame_def)
  have u: "update registered = Inr registered"
    by (simp add: update_def registered_def macd_def atr_def save_indicator_def df_empty_def
        DataFrame_def)
  from empty_frame_untouched [OF h, where fast = 12 and slow = 26 and macd_period = 9
      and name = "''macd''"]
  have m: "macd 12 26 9 ''macd'' registered = Inr registered" by (simp add: registered_def)
  from empty_frame_untouched [OF h, where period = 20 and name = "''atr''"]
  have a: "atr 20 ''atr'' registered = Inr registered" by (simp add: registered_def)
  from empty_frame_untouched [OF h, where period = 20 and std = 2 and name = "''bbands''"]
  have b: "bbands 20 2 ''bbands'' registered =
       Inr (registered\<lparr>indicators :=
         [(''macd'', Macd_args 12 26 9), (''atr'', Atr_args 20), (''bbands'', Bbands_args 20 2)]\<rparr>)"
    by (simp add: registered_def)
  from h u m a b show ?thesis by blast
qed

section \<open>When an indicator is computed\<close>

lemma ewm_1: "ewm 1 [Fin 1, Fin 2] = [Fin 1, Fin 2]"
  by (simp add: ewm_def prep_values_def Let_def)

lemma macd_series_111: "macd_series 1 1 1 [Fin 1, Fin 2] = [Fin 0, Fin 0]"
  by (simp add: macd_series_def ewm_def prep_values_def series_sub_def fsub_def Let_def)

lemma macd_series_211: "macd_series 2 1 1 [Fin 1, Fin 2] = [NaN, Fin (- 1 / 4)]"
  by (simp add: macd_series_def ewm_def prep_values_def series_sub_def fsub_def Let_def)

text \<open>
  The claim's wording of C6 against the code. A second \<open>macd\<close> call, and an \<open>update()\<close>
  replay, on a buffer that is still empty are later invocations, and they compute
  nothing: the frame stays the empty \<open>DataFrame()\<close>, only the spec is stored again. And
  on bars that have a close column only, \<open>atr\<close> raises the KeyError of the missing
  \<open>high\<close> column, its spec stored all the same; \<open>update()\<close> with \<open>atr\<close> registered
  before \<open>macd\<close> ends at that error and never reaches \<open>macd\<close>, which on its own
  computes its column there.
\<close>

theorem later_invocation_counterexample:
  "macd 12 26 9 ''macd'' (FrameClient 1000) =
     Inr ((FrameClient 1000)\<lparr>indicators := [(''macd'', Macd_args 12 26 9)]\<rparr>)
   \<and> macd 12 26 9 ''macd'' ((FrameClient 1000)\<lparr>indicators := [(''macd'', Macd_args 12 26 9)]\<rparr>) =
     Inr ((FrameClient 1000)\<lparr>indicators := [(''macd'', Macd_args 12 26 9)]\<rparr>)
   \<and> update ((FrameClient 1000)\<lparr>indicators := [(''macd'', Macd_args 12 26 9)]\<rparr>) =
     Inr ((FrameClient 1000)\<lparr>indicators := [(''macd'', Macd_args 12 26 9)]\<rparr>)
   \<and> df ((FrameClient 1000)\<lparr>indicators := [(''macd'', Macd_args 12 26 9)]\<rparr>) = DataFrame
   \<and> atr 20 ''atr'' (close_only [(''atr'', Atr_args 20)]) =
     Inl (KeyError ''high'', close_only [(''atr'', Atr_args 20)])
   \<and> update (close_only [(''atr'', Atr_args 20), (''macd'', Macd_args 1 1 1)]) =
     Inl (KeyError ''high'', close_only [(''atr'', Atr_args 20), (''macd'', Macd_args 1 1 1)])
   \<and> macd 1 1 1 ''macd'' (close_only [(''atr'', Atr_args 20), (''macd'', Macd_args 1 1 1)]) =
     Inr \<lparr>df = \<lparr>index = [1, 2],
                 columns = [(''close'', [Fin 1, Fin 2]), (''macd'', [Fin 0, Fin 0])]\<rparr>,
          max_size = 1000,
          indicators = [(''atr'', Atr_args 20), (''macd'', Macd_args 1 1 1)]\<rparr>"
proof -
  have 1: "macd 12 26 9 ''macd'' (FrameClient 1000) =
     Inr ((FrameClient 1000)\<lparr>indicators := [(''macd'', Macd_args 12 26 9)]\<rparr>)"
    and 2: "macd 12 26 9 ''macd'' ((FrameClient 1000)\<lparr>indicators := [(''macd'', Macd_args 12 26 9)]\<rparr>) =
     Inr ((FrameClient 1000)\<lparr>indicators := [(''macd'', Macd_args 12 26 9)]\<rparr>)"
    and 3: "update ((FrameClient 1000)\<lparr>indicators := [(''macd'', Macd_args 12 26 9)]\<rparr>) =
     Inr ((FrameClient 1000)\<lparr>indicators := [(''macd'', Macd_args 12 26 9)]\<rparr>)"
    and 4: "df ((FrameClient 1000)\<lparr>indicators := [(''macd'', Macd_args 12 26 9)]\<rparr>) = DataFrame"
    by (simp_all add: FrameClient_def macd_def save_indicator_def update_def df_empty_def
        DataFrame_def)
  have 5: "atr 20 ''atr'' (close_only [(''atr'', Atr_args 20)]) =
     Inl (KeyError ''high'', close_only [(''atr'', Atr_args 20)])"
    by (simp add: atr_def save_indicator_def close_only_def bars_def df_empty_def atr_body_def
        get_col_def)
  have 6: "update (close_only [(''atr'', Atr_args 20), (''macd'', Macd_args 1 1 1)]) =
     Inl (KeyError ''high'', close_only [(''atr'', Atr_args 20), (''macd'', Macd_args 1 1 1)])"
    by (simp add: update_def atr_def save_indicator_def close_only_def bars_def df_empty_def
        atr_body_def get_col_def)
  have 7: "macd 1 1 1 ''macd'' (close_only [(''atr'', Atr_args 20), (''macd'', Macd_args 1 1 1)]) =
     Inr \<lparr>df = \<lparr>index = [1, 2],
                 columns = [(''close'', [Fin 1, Fin 2]), (''macd'', [Fin 0, Fin 0])]\<rparr>,
          max_size = 1000,
          indicators = [(''atr'', Atr_args 20), (''macd'', Macd_args 1 1 1)]\<rparr>"
    by (simp add: macd_def save_indicator_def close_only_def bars_def df_empty_def
        macd_body_closed computed_def get_col_def macd_series_111 [unfolded One_nat_def]
        with_output_def)
  from 1 2 3 4 5 6 7 show ?thesis by blast
qed

text \<open>
  C6, as the code has it. Every invocation of a registration method, first or later,
  direct or replayed by \<open>update()\<close>, stores its spec under its name (a new name goes to
  the end of the registry, a known name keeps its place), also when it goes on to raise.
  It computes exactly when the frame is not empty at that moment: then the output series
  is computed from the whole input columns, one cell per retained row, and assigned to
  the output column; or the error of the computation is raised, and the client is left
  with the spec stored and the frame holding the columns assigned up to the raise. On an
  empty frame the frame is left as it is. \<open>update()\<close> leaves the registry as it is and
  runs the bodies of the registered indicators in registration order, each on the frame
  the one before left, until one raises; the ones after it are not run.
\<close>

theorem registration_computes_iff_nonempty:
  "macd fast slow macd_period name fc = call_indicator (name, Macd_args fast slow macd_period) fc
   \<and> atr period name fc = call_indicator (name, Atr_args period) fc
   \<and> bbands period std name fc = call_indicator (name, Bbands_args period std) fc
   \<and> indicators (state_after (call_indicator (name, a) fc)) = dict_set name a (indicators fc)
   \<and> (df_empty (df fc) \<longrightarrow>
        call_indicator (name, a) fc = Inr (fc\<lparr>indicators := dict_set name a (indicators fc)\<rparr>))
   \<and> (\<not> df_empty (df fc) \<longrightarrow>
        call_indicator (name, a) fc =
          (case indicator_series a (df fc) of
             Inr s \<Rightarrow> Inr (fc\<lparr>indicators := dict_set name a (indicators fc),
                              df := with_output a s (df fc)\<rparr>)
           | Inl e \<Rightarrow> Inl (e, fc\<lparr>indicators := dict_set name a (indicators fc),
                                  df := raised_frame a (df fc)\<rparr>)))
   \<and> (frame_ok d \<and> indicator_series a d = Inr s \<longrightarrow> length s = len d)
   \<and> map fst (dict_set name a reg) =
        (if name \<in> set (map fst reg) then map fst reg else map fst reg @ [name])
   \<and> (distinct (map fst (indicators fc)) \<longrightarrow>
        update fc =
          (if df_empty (df fc) then Inr fc
           else in_client fc (run_bodies (map snd (indicators fc)) (df fc))))
   \<and> run_bodies [] d = Inr d
   \<and> run_bodies (a # rest) d =
        (case indicator_series a d of
           Inr s \<Rightarrow> run_bodies rest (with_output a s d)
         | Inl e \<Rightarrow> Inl (e, raised_frame a d))"
proof (intro conjI impI)
  show "indicators (state_after (call_indicator (name, a) fc)) = dict_set name a (indicators fc)"
    by (rule call_indicator_state)
next
  assume "df_empty (df fc)"
  then show "call_indicator (name, a) fc =
      Inr (fc\<lparr>indicators := dict_set name a (indicators fc)\<rparr>)"
    by (simp add: call_indicator_closed)
next
  assume "\<not> df_empty (df fc)"
  then show "call_indicator (name, a) fc =
          (case indicator_series a (df fc) of
             Inr s \<Rightarrow> Inr (fc\<lparr>indicators := dict_set name a (indicators fc),
                              df := with_output a s (df fc)\<rparr>)
           | Inl e \<Rightarrow> Inl (e, fc\<lparr>indicators := dict_set name a (indicators fc),
                                  df := raised_frame a (df fc)\<rparr>))"
    by (cases "indicator_series a (df fc)")
       (simp_all add: call_indicator_closed computed_def)
next
  assume "frame_ok d \<and> indicator_series a d = Inr s"
  then show "length s = len d"
    by (auto intro: length_indicator_series)
next
  assume "distinct (map fst (indicators fc))"
  then show "update fc =
          (if df_empty (df fc) then Inr fc
           else in_client fc (run_bodies (map snd (indicators fc)) (df fc)))"
    unfolding update_def by (intro update_loop_closed) simp_all
next
  show "run_bodies (a # rest) d =
        (case indicator_series a d of
           Inr s \<Rightarrow> run_bodies rest (with_output a s d)
         | Inl e \<Rightarrow> Inl (e, raised_frame a d))"
    by (cases "indicator_series a d") (simp_all add: indicator_body_closed computed_def)
qed (simp_all add: keys_dict_set)

theorem registration_computes_iff_nonempty_witness:
  "df_empty (df (FrameClient 1000))
   \<and> call_indicator (''atr'', Atr_args 20) (FrameClient 1000) =
       Inr ((FrameClient 1000)\<lparr>indicators := [(''atr'', Atr_args 20)]\<rparr>)
   \<and> \<not> df_empty (df (close_only []))
   \<and> call_indicator (''m1'', Macd_args 1 1 1) (close_only []) = Inr two_macd_1
   \<and> call_indicator (''m'', Macd_args 1 0 1) (close_only []) =
       Inl (ValueError,
            \<lparr>df = \<lparr>index = [1, 2],
                    columns = [(''close'', [Fin 1, Fin 2]), (''macd_fast'', [Fin 1, Fin 2])]\<rparr>,
             max_size = 1000,
             indicators = [(''m'', Macd_args 1 0 1)]\<rparr>)
   \<and> indicators (state_after (call_indicator (''m'', Macd_args 1 0 1) (close_only []))) =
       [(''m'', Macd_args 1 0 1)]
   \<and> frame_ok (bars [1, 2])
   \<and> indicator_series (Macd_args 2 1 1) (bars [1, 2]) = Inr [NaN, Fin (- 1 / 4)]
   \<and> length [NaN, Fin (- 1 / 4)] = len (bars [1, 2])
   \<and> distinct (map fst (indicators two_macd_2))
   \<and> update (close_only [(''m1'', Macd_args 1 1 1), (''m2'', Macd_args 2 1 1)]) = Inr two_macd_2
   \<and> update (close_only [(''m2'', Macd_args 2 1 1), (''m1'', Macd_args 1 1 1)]) =
       Inr (two_macd_1\<lparr>indicators := [(''m2'', Macd_args 2 1 1), (''m1'', Macd_args 1 1 1)]\<rparr>)
   \<and> update (close_only [(''m1'', Macd_args 1 1 1), (''a'', Atr_args 20), (''m2'', Macd_args 2 1 1)]) =
       Inl (KeyError ''high'',
            two_macd_1\<lparr>indicators :=
              [(''m1'', Macd_args 1 1 1), (''a'', Atr_args 20), (''m2'', Macd_args 2 1 1)]\<rparr>)"
proof -
  note T = registration_computes_iff_nonempty
  note ev = close_only_def bars_def df_empty_def get_col_def with_output_def
    macd_series_111 [unfolded One_nat_def] macd_series_211 [unfolded One_nat_def]
    two_macd_1_def two_macd_2_def
  have e: "df_empty (df (FrameClient 1000))"
    by (simp add: FrameClient_def DataFrame_def df_empty_def)
  have ne: "\<not> df_empty (df (close_only []))"
    by (simp add: ev)
  have ok: "frame_ok (bars [1, 2])"
    by (simp add: frame_ok_def bars_def)
  have ser: "indicator_series (Macd_args 2 1 1) (bars [1, 2]) = Inr [NaN, Fin (- 1 / 4)]"
    by (simp add: ev)
  have di: "distinct (map fst (indicators two_macd_2))"
    by (simp add: two_macd_2_def)
  have 1: "call_indicator (''atr'', Atr_args 20) (FrameClient 1000) =
       Inr ((FrameClient 1000)\<lparr>indicators := [(''atr'', Atr_args 20)]\<rparr>)"
    using T [where fc = "FrameClient 1000" and name = "''atr''" and a = "Atr_args 20"] e
    by (simp add: FrameClient_def)
  have 2: "call_indicator (''m1'', Macd_args 1 1 1) (close_only []) = Inr two_macd_1"
    using T [where fc = "close_only []" and name = "''m1''" and a = "Macd_args 1 1 1"] ne
    by (simp add: ev)
  have 3: "call_indicator (''m'', Macd_args 1 0 1) (close_only []) =
       Inl (ValueError,
            \<lparr>df = \<lparr>index = [1, 2],
                    columns = [(''close'', [Fin 1, Fin 2]), (''macd_fast'', [Fin 1, Fin 2])]\<rparr>,
             max_size = 1000,
             indicators = [(''m'', Macd_args 1 0 1)]\<rparr>)"
    using T [where fc = "close_only []" and name = "''m''" and a = "Macd_args 1 0 1"] ne
    by (simp add: ev ewm_1 [unfolded One_nat_def] set_col_def)
  have 4: "indicators (state_after (call_indicator (''m'', Macd_args 1 0 1) (close_only []))) =
       [(''m'', Macd_args 1 0 1)]"
    using T [where fc = "close_only []" and name = "''m''" and a = "Macd_args 1 0 1"]
    by (simp add: close_only_def)
  have 5: "length [NaN, Fin (- 1 / 4)] = len (bars [1, 2])"
    using T [where d = "bars [1, 2]" and a = "Macd_args 2 1 1" and s = "[NaN, Fin (- 1 / 4)]"]
      ok ser
    by blast
  have 6: "update (close_only [(''m1'', Macd_args 1 1 1), (''m2'', Macd_args 2 1 1)]) = Inr two_macd_2"
    using T [where fc = "close_only [(''m1'', Macd_args 1 1 1), (''m2'', Macd_args 2 1 1)]"]
    by (simp add: ev indicator_body_closed computed_def)
  have 7: "update (close_only [(''m2'', Macd_args 2 1 1), (''m1'', Macd_args 1 1 1)]) =
       Inr (two_macd_1\<lparr>indicators := [(''m2'', Macd_args 2 1 1), (''m1'', Macd_args 1 1 1)]\<rparr>)"
    using T [where fc = "close_only [(''m2'', Macd_args 2 1 1), (''m1'', Macd_args 1 1 1)]"]
    by (simp add: ev indicator_body_closed computed_def)
  have 8: "update (close_only [(''m1'', Macd_args 1 1 1), (''a'', Atr_args 20), (''m2'', Macd_args 2 1 1)]) =
       Inl (KeyError ''high'',
            two_macd_1\<lparr>indicators :=
              [(''m1'', Macd_args 1 1 1), (''a'', Atr_args 20), (''m2'', Macd_args 2 1 1)]\<rparr>)"
    using T [where fc = "close_only [(''m1'', Macd_args 1 1 1), (''a'', Atr_args 20),
        (''m2'', Macd_args 2 1 1)]"]
    by (simp add: ev indicator_body_closed computed_def)
  from e 1 ne 2 3 4 ok ser 5 di 6 7 8 show ?thesis by blast
qed

section \<open>The name of an indicator\<close>



section \<open>Bollinger percent-b\<close>

text \<open>
  C3 on the closes 1, 2 with period 2 and 2 standard deviations. The code takes the
  rolling standard deviation of the rolling mean \<open>bbands_ma\<close>, which has one value only
  in the first two rows, so percent-b is missing in both rows; taken of close, as the
  claim words it, the second row has a value. Only \<open>bbands_percent\<close> is left in the
  frame beside close.
\<close>

theorem bbands_std_of_moving_average:
  "bbands 2 2 ''bbands'' (buffer_of 1000 [1, 2]) =
     Inr \<lparr>df = \<lparr>index = [1, 2],
                 columns = [(''close'', [Fin 1, Fin 2]), (''bbands_percent'', [NaN, NaN])]\<rparr>,
          max_size = 1000,
          indicators = [(''bbands'', Bbands_args 2 2)]\<rparr>
   \<and> bbands_percent_claimed 2 2 [Fin 1, Fin 2] =
       [NaN, Fin ((2 - (3 / 2 - 2 * sqrt (1 / 2))) / (4 * sqrt (1 / 2)))]"
proof -
  have upt2: "[0..<2] = [0, Suc 0]"
    by (simp add: upt_rec numeral_2_eq_2)
  have ma: "rolling 2 fmean [Fin 1, Fin 2] = [NaN, Fin (3 / 2)]"
    by (simp add: rolling_def prep_values_def upt2 fmean_def fsum_def Let_def)
  have sd: "rolling 2 fstd [NaN, Fin (3 / 2)] = [NaN, NaN]"
    by (simp add: rolling_def prep_values_def upt2 Let_def)
  have sd_close: "rolling 2 fstd [Fin 1, Fin 2] = [NaN, Fin (sqrt (1 / 2))]"
    by (simp add: rolling_def prep_values_def upt2 Let_def fstd_def fmean_def fsum_def fsub_def
        power2_eq_square)
  have code: "bbands_series 2 2 [Fin 1, Fin 2] = [NaN, NaN]"
    by (simp add: bbands_series_def ma sd Let_def series_add_def series_sub_def
        series_scale_def series_div_def fsub_def)
  have 1: "bbands 2 2 ''bbands'' (buffer_of 1000 [1, 2]) =
     Inr \<lparr>df = \<lparr>index = [1, 2],
                 columns = [(''close'', [Fin 1, Fin 2]), (''bbands_percent'', [NaN, NaN])]\<rparr>,
          max_size = 1000,
          indicators = [(''bbands'', Bbands_args 2 2)]\<rparr>"
    by (simp add: bbands_def save_indicator_def buffer_of_def bars_def df_empty_def
        bbands_body_closed computed_def code with_output_def get_col_def)
  have 2: "bbands_percent_claimed 2 2 [Fin 1, Fin 2] =
       [NaN, Fin ((2 - (3 / 2 - 2 * sqrt (1 / 2))) / (4 * sqrt (1 / 2)))]"
    by (simp add: bbands_percent_claimed_def ma sd_close Let_def series_add_def series_sub_def
        series_scale_def series_div_def fsub_def)
  from 1 2 show ?thesis by (rule conjI)
qed

section \<open>Opening a trade\<close>

text \<open>
  C5. \<open>open_trade\<close> calls the broker's \<open>create_entry_order\<close> when the trade's order type
  is \<open>Entry\<close> and the broker's \<open>open_trade\<close> otherwise, once; it returns the order's id,
  or \<open>None\<close> when the broker returned no order; and it appends what the broker returned to
  the portfolio's orders in both cases. No branch of it raises.
\<close>

theorem open_trade_appends_order:
  "open_trade api t p calls =
     (let order' = (if get_order_type t = ''Entry''
                    then api_create_entry_order api calls (get_fxcm_args t)
                    else api_open_trade api calls (get_fxcm_args t))
      in (case order' of Some ord \<Rightarrow> Some (orderId ord) | None \<Rightarrow> None,
          p\<lparr>orders := orders p @ [order']\<rparr>,
          calls @ [if get_order_type t = ''Entry'' then Create_entry_order (get_fxcm_args t)
                   else Open_trade (get_fxcm_args t)]))"
  by (simp add: open_trade_def add_order_def Let_def)

theorem open_trade_appends_order_witness:
  "open_trade (broker_stub (Some \<lparr>orderId = 42\<rparr>))
       \<lparr>get_order_type = ''Entry'', get_fxcm_args = [(''symbol'', ''EUR/USD'')]\<rparr>
       \<lparr>portfolio_id = ''p'', orders = []\<rparr> [] =
     (Some 42, \<lparr>portfolio_id = ''p'', orders = [Some \<lparr>orderId = 42\<rparr>]\<rparr>,
      [Create_entry_order [(''symbol'', ''EUR/USD'')]])
   \<and> open_trade (broker_stub None)
       \<lparr>get_order_type = ''AtMarket'', get_fxcm_args = [(''symbol'', ''EUR/USD'')]\<rparr>
       \<lparr>portfolio_id = ''p'', orders = []\<rparr> [] =
     (None, \<lparr>portfolio_id = ''p'', orders = [None]\<rparr>,
      [Open_trade [(''symbol'', ''EUR/USD'')]])"
proof -
  have 1: "open_trade (broker_stub (Some \<lparr>orderId = 42\<rparr>))
       \<lparr>get_order_type = ''Entry'', get_fxcm_args = [(''symbol'', ''EUR/USD'')]\<rparr>
       \<lparr>portfolio_id = ''p'', orders = []\<rparr> [] =
     (Some 42, \<lparr>portfolio_id = ''p'', orders = [Some \<lparr>orderId = 42\<rparr>]\<rparr>,
      [Create_entry_order [(''symbol'', ''EUR/USD'')]])"
    unfolding open_trade_appends_order by (simp add: broker_stub_def)
  have 2: "open_trade (broker_stub None)
       \<lparr>get_order_type = ''AtMarket'', get_fxcm_args = [(''symbol'', ''EUR/USD'')]\<rparr>
       \<lparr>portfolio_id = ''p'', orders = []\<rparr> [] =
     (None, \<lparr>portfolio_id = ''p'', orders = [None]\<rparr>,
      [Open_trade [(''symbol'', ''EUR/USD'')]])"
    unfolding open_trade_appends_order by (simp add: broker_stub_def)
  from 1 2 show ?thesis by (rule conjI)
qed

section \<open>Subscribing instruments\<close>

lemma instrument_loop_result:
  "idx + length syms \<le> length res \<Longrightarrow>
   instrument_loop call mk idx syms res calls =
     (take idx res @ map Some (answers call mk calls syms) @ drop (idx + length syms) res,
      calls @ map mk syms)"
proof (induction syms arbitrary: idx res calls)
  case Nil
  then show ?case by simp
next
  case (Cons symbol rest)
  from Cons.prems have lt: "idx < length res" by simp
  from Cons.prems have "idx + 1 + length rest \<le> length (res[idx := Some (call calls symbol)])"
    by simp
  from Cons.IH [OF this] lt show ?case
    by (simp add: take_Suc_conv_app_nth)
qed

lemma subscribe_instrument_seq:
  "subscribe_instrument api (Seq xs) calls =
     (map Some (answers (api_subscribe_instrument api) Subscribe_instrument calls xs),
      calls @ map Subscribe_instrument xs)"
  by (simp add: subscribe_instrument_def instrument_loop_result)

lemma unsubscribe_instrument_seq:
  "unsubscribe_instrument api (Seq xs) calls =
     (map Some (answers (api_unsubscribe_instrument api) Unsubscribe_instrument calls xs),
      calls @ map Unsubscribe_instrument xs)"
  by (simp add: unsubscribe_instrument_def instrument_loop_result)

text \<open>
  C7 on the single symbol \<open>EUR/USD\<close>. \<^verbatim>\<open>list(symbols)\<close> splits the string into its seven
  characters, so the broker is called seven times, once per character, and seven
  results are returned, where the claim has one call for the one symbol.
\<close>

theorem subscribe_single_symbol_per_character:
  "snd (subscribe_instrument api (Str ''EUR/USD'') []) =
     [Subscribe_instrument ''E'', Subscribe_instrument ''U'', Subscribe_instrument ''R'',
      Subscribe_instrument ''/'', Subscribe_instrument ''U'', Subscribe_instrument ''S'',
      Subscribe_instrument ''D'']
   \<and> length (fst (subscribe_instrument api (Str ''EUR/USD'') [])) = 7
   \<and> snd (unsubscribe_instrument api (Str ''EUR/USD'') []) =
     [Unsubscribe_instrument ''E'', Unsubscribe_instrument ''U'', Unsubscribe_instrument ''R'',
      Unsubscribe_instrument ''/'', Unsubscribe_instrument ''U'', Unsubscribe_instrument ''S'',
      Unsubscribe_instrument ''D'']
   \<and> length (fst (unsubscribe_instrument api (Str ''EUR/USD'') [])) = 7"
  by (simp add: subscribe_instrument_def unsubscribe_instrument_def instrument_loop_result)

section \<open>Sleeping until the next bar\<close>

lemma total_seconds_div: "total_seconds v = real_of_int (v div 1000) / 1000000"
proof -
  have "v - v mod 1000 = 1000 * (v div 1000)"
    by (simp add: minus_mod_eq_mult_div)
  then show ?thesis
    by (simp add: total_seconds_def)
qed

lemma total_seconds_le: "total_seconds v \<le> real_of_int v / 1000000000"
proof -
  have "0 \<le> v mod 1000" by simp
  then have "real_of_int (v - v mod 1000) \<le> real_of_int v" by linarith
  then show ?thesis
    unfolding total_seconds_def by (rule divide_right_mono) simp
qed

lemma total_seconds_gt: "real_of_int v / 1000000000 - total_seconds v < 1 / 1000000"
proof -
  have "v mod 1000 < 1000" by simp
  then have "real_of_int (v mod 1000) < 1000" by linarith
  then have "real_of_int (v mod 1000) / 1000000000 < 1000 / 1000000000"
    by (rule divide_strict_right_mono) simp
  moreover have "real_of_int v / 1000000000 - total_seconds v =
      real_of_int (v mod 1000) / 1000000000"
    by (simp add: total_seconds_def field_simps)
  ultimately show ?thesis by simp
qed

lemma normalize_utc_closed:
  "normalize_utc now1 last_timestamp =
     Inr \<lparr>value = (case last_timestamp of None \<Rightarrow> now1 | Some t \<Rightarrow> value t),
          tzinfo = Some ''UTC''\<rparr>"
  by (cases last_timestamp)
     (simp_all add: normalize_utc_def tz_localize_utc_def tz_convert_utc_def utcnow_def)

lemma sleep_till_next_bar_closed:
  "sleep_till_next_bar now1 now2 last_timestamp timedelta =
     (let t0 = (case last_timestamp of None \<Rightarrow> now1 | Some t \<Rightarrow> value t)
      in if in_bounds (t0 + timedelta) \<and> in_bounds (t0 + timedelta - now2)
         then Inr (max (1 / 10) (total_seconds (t0 + timedelta - now2)))
         else Inl OutOfBoundsDatetime)"
  by (simp add: sleep_till_next_bar_def normalize_utc_closed timestamp_add_def
      timestamp_sub_def utcnow_def Let_def)

text \<open>
  C8 as worded fails on two inputs. The last timestamp pandas can hold, plus one second,
  is out of the 64-bit nanosecond range: the addition raises and nothing is slept. And
  1.500000001 seconds ahead the call sleeps 1.5 seconds, \<open>total_seconds()\<close> dropping what
  is below a microsecond, where the claimed expression is 1.500000001.
\<close>

theorem sleep_out_of_range_counterexample:
  "sleep_till_next_bar 0 0 (Some \<lparr>value = 9223372036854775807, tzinfo = Some ''UTC''\<rparr>)
       1000000000 = Inl OutOfBoundsDatetime
   \<and> sleep_till_next_bar 0 0 (Some \<lparr>value = 0, tzinfo = None\<rparr>) 1500000001 = Inr (3 / 2)
   \<and> max (1 / 10) (real_of_int (0 + 1500000001 - 0) / 1000000000) \<noteq> 3 / 2"
  by (simp add: sleep_till_next_bar_closed in_bounds_def total_seconds_def)

text \<open>
  C8, amended. The timestamp is normalised to UTC: the clock's reading for an absent
  timestamp, the same instant with the zone UTC for a naive or an aware one; \<open>t0\<close> is its
  value. While \<open>t0 + timedelta\<close> and its distance to now stay in the 64-bit nanosecond
  range, the scheduler sleeps \<open>max(0.1, total_seconds(t0 + timedelta - now))\<close>, the
  distance in seconds cut to whole microseconds: at least 0.1 seconds, so never zero or
  negative, less than a microsecond below the claimed \<open>max(0.1, (t0 + timedelta - now)
  in seconds)\<close> and never above it, and exactly 0.1 seconds when \<open>t0 + timedelta\<close> is
  not after now. Beyond the range the call raises and does not sleep.
\<close>

theorem sleep_floor:
  "(let t0 = (case last_timestamp of None \<Rightarrow> now1 | Some t \<Rightarrow> value t);
        next_value = t0 + timedelta;
        d = next_value - now2;
        slept = sleep_till_next_bar now1 now2 last_timestamp timedelta
    in normalize_utc now1 last_timestamp = Inr \<lparr>value = t0, tzinfo = Some ''UTC''\<rparr>
       \<and> (in_bounds next_value \<and> in_bounds d \<longrightarrow>
            slept = Inr (max (1 / 10) (total_seconds d))
            \<and> slept = Inr (max (1 / 10) (real_of_int (d div 1000) / 1000000))
            \<and> (\<exists>s. slept = Inr s \<and> 1 / 10 \<le> s \<and> 0 < s
                   \<and> s \<le> max (1 / 10) (real_of_int d / 1000000000)
                   \<and> max (1 / 10) (real_of_int d / 1000000000) - s < 1 / 1000000)
            \<and> (next_value \<le> now2 \<longrightarrow> slept = Inr (1 / 10)))
       \<and> (next_value < - (2 ^ 63) \<or> 2 ^ 63 \<le> next_value \<longrightarrow>
            slept = Inl OutOfBoundsDatetime)
       \<and> (in_bounds next_value \<and> (d < - (2 ^ 63) \<or> 2 ^ 63 \<le> d) \<longrightarrow>
            slept = Inl OutOfBoundsDatetime))"
proof -
  define t0 where "t0 = (case last_timestamp of None \<Rightarrow> now1 | Some t \<Rightarrow> value t)"
  define next_value where "next_value = t0 + timedelta"
  define d where "d = next_value - now2"
  define slept where "slept = sleep_till_next_bar now1 now2 last_timestamp timedelta"
  have closed: "slept = (if in_bounds next_value \<and> in_bounds d
      then Inr (max (1 / 10) (total_seconds d)) else Inl OutOfBoundsDatetime)"
    unfolding slept_def d_def next_value_def t0_def
    by (simp add: sleep_till_next_bar_closed Let_def)
  have 1: "normalize_utc now1 last_timestamp = Inr \<lparr>value = t0, tzinfo = Some ''UTC''\<rparr>"
    unfolding t0_def by (rule normalize_utc_closed)
  have 2: "in_bounds next_value \<and> in_bounds d \<longrightarrow>
            slept = Inr (max (1 / 10) (total_seconds d))
            \<and> slept = Inr (max (1 / 10) (real_of_int (d div 1000) / 1000000))
            \<and> (\<exists>s. slept = Inr s \<and> 1 / 10 \<le> s \<and> 0 < s
                   \<and> s \<le> max (1 / 10) (real_of_int d / 1000000000)
                   \<and> max (1 / 10) (real_of_int d / 1000000000) - s < 1 / 1000000)
            \<and> (next_value \<le> now2 \<longrightarrow> slept = Inr (1 / 10))"
  proof
    assume b: "in_bounds next_value \<and> in_bounds d"
    let ?s = "max (1 / 10) (total_seconds d)"
    from b closed have a: "slept = Inr ?s" by simp
    have a': "slept = Inr (max (1 / 10) (real_of_int (d div 1000) / 1000000))"
      unfolding a total_seconds_div ..
    have le: "total_seconds d \<le> real_of_int d / 1000000000"
      by (rule total_seconds_le)
    have gt: "real_of_int d / 1000000000 - total_seconds d < 1 / 1000000"
      by (rule total_seconds_gt)
    have f: "1 / 10 \<le> ?s" by simp
    then have p: "0 < ?s" by linarith
    from le have u: "?s \<le> max (1 / 10) (real_of_int d / 1000000000)"
      by (simp add: max_def)
    from gt le have l: "max (1 / 10) (real_of_int d / 1000000000) - ?s < 1 / 1000000"
      by (simp add: max_def)
    have e: "\<exists>s. slept = Inr s \<and> 1 / 10 \<le> s \<and> 0 < s
                   \<and> s \<le> max (1 / 10) (real_of_int d / 1000000000)
                   \<and> max (1 / 10) (real_of_int d / 1000000000) - s < 1 / 1000000"
      using a f p u l by (intro exI [of _ ?s] conjI)
    have past: "next_value \<le> now2 \<longrightarrow> slept = Inr (1 / 10)"
    proof
      assume "next_value \<le> now2"
      then have "real_of_int d / 1000000000 \<le> 0"
        by (simp add: d_def divide_nonpos_pos)
      with le have "total_seconds d \<le> 0" by linarith
      then show "slept = Inr (1 / 10)" unfolding a by simp
    qed
    from a a' e past
    show "slept = Inr (max (1 / 10) (total_seconds d))
            \<and> slept = Inr (max (1 / 10) (real_of_int (d div 1000) / 1000000))
            \<and> (\<exists>s. slept = Inr s \<and> 1 / 10 \<le> s \<and> 0 < s
                   \<and> s \<le> max (1 / 10) (real_of_int d / 1000000000)
                   \<and> max (1 / 10) (real_of_int d / 1000000000) - s < 1 / 1000000)
            \<and> (next_value \<le> now2 \<longrightarrow> slept = Inr (1 / 10))"
      by (intro conjI)
  qed
  have 3: "next_value < - (2 ^ 63) \<or> 2 ^ 63 \<le> next_value \<longrightarrow> slept = Inl OutOfBoundsDatetime"
    unfolding closed by (auto simp: in_bounds_def)
  have 4: "in_bounds next_value \<and> (d < - (2 ^ 63) \<or> 2 ^ 63 \<le> d) \<longrightarrow>
      slept = Inl OutOfBoundsDatetime"
    unfolding closed by (auto simp: in_bounds_def)
  show ?thesis
    unfolding Let_def t0_def [symmetric] next_value_def [symmetric] d_def [symmetric]
      slept_def [symmetric]
    by (intro conjI 1 2 3 4)
qed

theorem sleep_floor_witness:
  "normalize_utc 0 (Some \<lparr>value = 0, tzinfo = None\<rparr>) = Inr \<lparr>value = 0, tzinfo = Some ''UTC''\<rparr>
   \<and> normalize_utc 0 (Some \<lparr>value = 0, tzinfo = Some ''Europe/Kiev''\<rparr>) =
       Inr \<lparr>value = 0, tzinfo = Some ''UTC''\<rparr>
   \<and> normalize_utc 5 None = Inr \<lparr>value = 5, tzinfo = Some ''UTC''\<rparr>
   \<and> in_bounds (0 + 60000000000) \<and> in_bounds (0 + 60000000000 - 120000000000)
   \<and> 0 + 60000000000 \<le> (120000000000 :: int)
   \<and> sleep_till_next_bar 0 120000000000 (Some \<lparr>value = 0, tzinfo = None\<rparr>) 60000000000 =
       Inr (1 / 10)
   \<and> sleep_till_next_bar 0 30000000000 (Some \<lparr>value = 0, tzinfo = Some ''Europe/Kiev''\<rparr>)
        60000000000 = Inr 30
   \<and> sleep_till_next_bar 5 5 None 0 = Inr (1 / 10)
   \<and> sleep_till_next_bar 0 0 (Some \<lparr>value = 0, tzinfo = None\<rparr>) 2000000999 = Inr 2
   \<and> (2 :: int) ^ 63 \<le> 9223372036854775807 + 1
   \<and> sleep_till_next_bar 0 0 (Some \<lparr>value = 9223372036854775807, tzinfo = None\<rparr>) 1 =
       Inl OutOfBoundsDatetime"
proof -
  note T = sleep_floor
  have n1: "normalize_utc 0 (Some \<lparr>value = 0, tzinfo = None\<rparr>) =
      Inr \<lparr>value = 0, tzinfo = Some ''UTC''\<rparr>"
    using T [where ?now1.0 = 0 and last_timestamp = "Some \<lparr>value = 0, tzinfo = None\<rparr>"]
    by (simp add: Let_def)
  have n2: "normalize_utc 0 (Some \<lparr>value = 0, tzinfo = Some ''Europe/Kiev''\<rparr>) =
       Inr \<lparr>value = 0, tzinfo = Some ''UTC''\<rparr>"
    using T [where ?now1.0 = 0
        and last_timestamp = "Some \<lparr>value = 0, tzinfo = Some ''Europe/Kiev''\<rparr>"]
    by (simp add: Let_def)
  have n3: "normalize_utc 5 None = Inr \<lparr>value = 5, tzinfo = Some ''UTC''\<rparr>"
    using T [where ?now1.0 = 5 and last_timestamp = None]
    by (simp add: Let_def)
  have b: "in_bounds (0 + 60000000000) \<and> in_bounds (0 + 60000000000 - 120000000000)"
    by (simp add: in_bounds_def)
  have p: "0 + 60000000000 \<le> (120000000000 :: int)" by simp
  have 1: "sleep_till_next_bar 0 120000000000 (Some \<lparr>value = 0, tzinfo = None\<rparr>) 60000000000 =
       Inr (1 / 10)"
    using T [where ?now1.0 = 0 and ?now2.0 = 120000000000
        and last_timestamp = "Some \<lparr>value = 0, tzinfo = None\<rparr>" and timedelta = 60000000000] b p
    by (simp add: Let_def total_seconds_def)
  have 2: "sleep_till_next_bar 0 30000000000 (Some \<lparr>value = 0, tzinfo = Some ''Europe/Kiev''\<rparr>)
        60000000000 = Inr 30"
    using T [where ?now1.0 = 0 and ?now2.0 = 30000000000
        and last_timestamp = "Some \<lparr>value = 0, tzinfo = Some ''Europe/Kiev''\<rparr>"
        and timedelta = 60000000000]
    by (simp add: Let_def in_bounds_def total_seconds_def)
  have 3: "sleep_till_next_bar 5 5 None 0 = Inr (1 / 10)"
    using T [where ?now1.0 = 5 and ?now2.0 = 5 and last_timestamp = None and timedelta = 0]
    by (simp add: Let_def in_bounds_def total_seconds_def)
  have 4: "sleep_till_next_bar 0 0 (Some \<lparr>value = 0, tzinfo = None\<rparr>) 2000000999 = Inr 2"
    using T [where ?now1.0 = 0 and ?now2.0 = 0
        and last_timestamp = "Some \<lparr>value = 0, tzinfo = None\<rparr>" and timedelta = 2000000999]
    by (simp add: Let_def in_bounds_def total_seconds_def)
  have o: "(2 :: int) ^ 63 \<le> 9223372036854775807 + 1" by simp
  have 5: "sleep_till_next_bar 0 0 (Some \<lparr>value = 9223372036854775807, tzinfo = None\<rparr>) 1 =
       Inl OutOfBoundsDatetime"
    using T [where ?now1.0 = 0 and ?now2.0 = 0
        and last_timestamp = "Some \<lparr>value = 9223372036854775807, tzinfo = None\<rparr>"
        and timedelta = 1]
    by (simp add: Let_def)
  from n1 n2 n3 b p 1 2 3 4 o 5 show ?thesis by blast
qed

end
